theory Spec2Isabelle
  imports Complex_Main
begin

section \<open>Python values, exceptions and string helpers\<close>

text \<open>
  Exceptions are values. Every constructor stands for a subclass of Python's
  \<open>Exception\<close> and carries the text that \<open>str(e)\<close> prints. \<open>RequestException\<close> is the
  family raised by the HTTP library (connection errors, timeouts, a non-2xx status, a body
  that is not JSON).
\<close>

datatype exn =
    KeyError string
  | IndexError string
  | TypeError string
  | AttributeError string
  | ValueError string
  | UnicodeDecodeError string
  | OSError string
  | RequestException string
  | OtherException string

fun py_str_exn :: "exn \<Rightarrow> string" where
  "py_str_exn (KeyError s) = s"
| "py_str_exn (IndexError s) = s"
| "py_str_exn (TypeError s) = s"
| "py_str_exn (AttributeError s) = s"
| "py_str_exn (ValueError s) = s"
| "py_str_exn (UnicodeDecodeError s) = s"
| "py_str_exn (OSError s) = s"
| "py_str_exn (RequestException s) = s"
| "py_str_exn (OtherException s) = s"

text \<open>Sequencing of two steps of which the first may raise.\<close>

definition and_then :: "exn + 'a \<Rightarrow> ('a \<Rightarrow> exn + 'b) \<Rightarrow> exn + 'b" where
  "and_then r f = (case r of Inl e \<Rightarrow> Inl e | Inr x \<Rightarrow> f x)"

text \<open>
  The values that \<open>response.json()\<close> and \<open>json.loads\<close> return, which are also the values
  the program stores in its dictionaries: \<open>None\<close>, booleans, integers, floats, strings,
  lists, and dictionaries with string keys (an association list; lookups take the first
  binding). A float is carried as the number it denotes; the program only passes floats
  on, adds and divides them.
\<close>

datatype json =
    JNull
  | JBool bool
  | JInt int
  | JFloat real
  | JStr string
  | JArr "json list"
  | JObj "(string \<times> json) list"

text \<open>Truth value of a Python object, as \<open>if x:\<close> and \<open>x and y\<close> test it.\<close>

fun truthy :: "json \<Rightarrow> bool" where
  "truthy JNull = False"
| "truthy (JBool b) = b"
| "truthy (JInt i) = (i \<noteq> 0)"
| "truthy (JFloat r) = (r \<noteq> 0)"
| "truthy (JStr s) = (s \<noteq> [])"
| "truthy (JArr xs) = (xs \<noteq> [])"
| "truthy (JObj kvs) = (kvs \<noteq> [])"

text \<open>\<open>obj[key]\<close> for a string key.\<close>

fun py_getitem :: "json \<Rightarrow> string \<Rightarrow> exn + json" where
  "py_getitem (JObj kvs) k =
     (case map_of kvs k of
        None \<Rightarrow> Inl (KeyError ([CHR 0x27] @ k @ [CHR 0x27]))
      | Some v \<Rightarrow> Inr v)"
| "py_getitem (JArr xs) k = Inl (TypeError ''list indices must be integers or slices, not str'')"
| "py_getitem (JStr s) k = Inl (TypeError ''string indices must be integers'')"
| "py_getitem v k = Inl (TypeError ''object is not subscriptable'')"

text \<open>\<open>obj[0]\<close>. A dictionary decoded from JSON has string keys only, so \<open>0\<close> is never one.\<close>

fun py_getitem0 :: "json \<Rightarrow> exn + json" where
  "py_getitem0 (JArr xs) =
     (case xs of [] \<Rightarrow> Inl (IndexError ''list index out of range'') | x # _ \<Rightarrow> Inr x)"
| "py_getitem0 (JStr s) =
     (case s of [] \<Rightarrow> Inl (IndexError ''string index out of range'') | c # _ \<Rightarrow> Inr (JStr [c]))"
| "py_getitem0 (JObj kvs) = Inl (KeyError ''0'')"
| "py_getitem0 v = Inl (TypeError ''object is not subscriptable'')"

text \<open>\<open>obj.get(key, default)\<close>: only dictionaries have the method.\<close>

fun py_get :: "json \<Rightarrow> string \<Rightarrow> json \<Rightarrow> exn + json" where
  "py_get (JObj kvs) k d = (case map_of kvs k of None \<Rightarrow> Inr d | Some v \<Rightarrow> Inr v)"
| "py_get v k d = Inl (AttributeError ''object has no attribute get'')"

text \<open>\<open>len(obj)\<close>.\<close>

fun py_len :: "json \<Rightarrow> exn + nat" where
  "py_len (JArr xs) = Inr (length xs)"
| "py_len (JStr s) = Inr (length s)"
| "py_len (JObj kvs) = Inr (length kvs)"
| "py_len v = Inl (TypeError ''object has no len()'')"

text \<open>Whether \<open>xs\<close> occurs in \<open>ys\<close> as a contiguous run (Python's \<open>in\<close> on two strings).\<close>

fun starts_with :: "'a list \<Rightarrow> 'a list \<Rightarrow> bool" where
  "starts_with [] ys = True"
| "starts_with (x # xs) [] = False"
| "starts_with (x # xs) (y # ys) = (x = y \<and> starts_with xs ys)"

fun occurs_in :: "'a list \<Rightarrow> 'a list \<Rightarrow> bool" where
  "occurs_in xs [] = (xs = [])"
| "occurs_in xs (y # ys) = (starts_with xs (y # ys) \<or> occurs_in xs ys)"

text \<open>
  \<open>key in obj\<close> for a string key: key membership in a dictionary, element membership in
  a list, substring test on a string, \<open>TypeError\<close> on anything else.
\<close>

fun py_contains :: "string \<Rightarrow> json \<Rightarrow> exn + bool" where
  "py_contains k (JObj kvs) = Inr (map_of kvs k \<noteq> None)"
| "py_contains k (JArr xs) = Inr (JStr k \<in> set xs)"
| "py_contains k (JStr s) = Inr (occurs_in k s)"
| "py_contains k v = Inl (TypeError ''argument is not iterable'')"

text \<open>
  Text. A Python \<open>str\<close> is modelled as a \<open>string\<close> whose characters are the code points
  below 256; \<open>py_isspace\<close> lists the ones \<open>str.isspace\<close> accepts in that range, which are
  the ones \<open>str.split()\<close> and \<open>str.strip()\<close> treat as whitespace.
\<close>

definition py_isspace :: "char \<Rightarrow> bool" where
  "py_isspace c = ((of_char c :: nat) \<in> set [9, 10, 11, 12, 13, 28, 29, 30, 31, 32, 133, 160])"

text \<open>
  \<open>s.split()\<close> with no argument: runs of whitespace separate the words and no empty word
  is produced. \<open>cur\<close> is the word being read.
\<close>

fun split_from :: "string \<Rightarrow> string \<Rightarrow> string list" where
  "split_from cur [] = (if cur = [] then [] else [cur])"
| "split_from cur (c # cs) =
     (if py_isspace c then (if cur = [] then split_from [] cs else cur # split_from [] cs)
      else split_from (cur @ [c]) cs)"

definition py_split :: "string \<Rightarrow> string list" where
  "py_split s = split_from [] s"

definition py_strip :: "string \<Rightarrow> string" where
  "py_strip s = rev (dropWhile py_isspace (rev (dropWhile py_isspace s)))"

text \<open>\<open>s.rstrip('/')\<close>.\<close>

definition rstrip_slash :: "string \<Rightarrow> string" where
  "rstrip_slash s = rev (dropWhile (\<lambda>c. c = CHR ''/'') (rev s))"

text \<open>\<open>sep.join(xs)\<close>.\<close>

fun py_join :: "string \<Rightarrow> string list \<Rightarrow> string" where
  "py_join sep [] = []"
| "py_join sep [x] = x"
| "py_join sep (x # y # ys) = x @ sep @ py_join sep (y # ys)"

text \<open>An optional string inside an f-string, and as a dictionary value.\<close>

definition py_format_opt :: "string option \<Rightarrow> string" where
  "py_format_opt s = (case s of None \<Rightarrow> ''None'' | Some t \<Rightarrow> t)"

definition opt_json :: "string option \<Rightarrow> json" where
  "opt_json s = (case s of None \<Rightarrow> JNull | Some t \<Rightarrow> JStr t)"

text \<open>Truth value of an optional string (\<open>if user_prompt:\<close>, \<open>if not base_url:\<close>).\<close>

definition truthy_opt :: "string option \<Rightarrow> bool" where
  "truthy_opt s = (case s of None \<Rightarrow> False | Some t \<Rightarrow> t \<noteq> [])"

section \<open>llm_client.py\<close>

subsection \<open>Messages, responses, requests\<close>

text \<open>A message is a dictionary with the keys \<open>role\<close> and \<open>content\<close>.\<close>

record message =
  role :: string
  content :: string

definition message_json :: "message \<Rightarrow> json" where
  "message_json m = JObj [(''role'', JStr (role m)), (''content'', JStr (content m))]"

text \<open>
  \<open>LLMResponse\<close>. The fields hold whatever the provider's JSON held at the place they are
  read from; \<open>JNull\<close> is Python's \<open>None\<close>.
\<close>

record LLMResponse =
  resp_content :: json
  resp_model :: string
  resp_usage :: json
  resp_finish_reason :: json
  resp_provider :: string

text \<open>\<open>LLMResponse.to_dict\<close>.\<close>

definition LLMResponse_to_dict :: "LLMResponse \<Rightarrow> json" where
  "LLMResponse_to_dict r = JObj
     [(''content'', resp_content r),
      (''model'', JStr (resp_model r)),
      (''usage'', resp_usage r),
      (''finish_reason'', resp_finish_reason r),
      (''provider'', JStr (resp_provider r))]"

text \<open>
  What \<open>requests.post\<close> is called with. The network is a parameter of every function
  that reaches it: \<open>post\<close> maps a request to the decoded JSON body, or to the exception
  that \<open>requests.post\<close>, \<open>raise_for_status\<close> or \<open>response.json()\<close> raised.
\<close>

record http_request =
  req_url :: string
  req_headers :: "(string \<times> json) list"
  req_json :: "(string \<times> json) list"
  req_timeout :: nat
  req_stream :: bool

type_synonym transport = "http_request \<Rightarrow> exn + json"

text \<open>\<open>kwargs.get(key, default)\<close> on the keyword arguments of a call.\<close>

definition kwargs_get :: "(string \<times> json) list \<Rightarrow> string \<Rightarrow> json \<Rightarrow> json" where
  "kwargs_get kw k d = (case map_of kw k of None \<Rightarrow> d | Some v \<Rightarrow> v)"

subsection \<open>The providers\<close>

text \<open>
  One constructor per provider class, holding the attributes \<open>__init__\<close> sets:
  \<open>api_key\<close>, \<open>model\<close>, \<open>kwargs\<close>, then \<open>base_url\<close> (not for Anthropic) and \<open>headers\<close>.
\<close>

datatype LLMProvider =
    OpenAIProvider "string option" string "(string \<times> json) list" string "(string \<times> json) list"
  | AnthropicProvider "string option" string "(string \<times> json) list" "(string \<times> json) list"
  | CustomProvider "string option" string "(string \<times> json) list" string "(string \<times> json) list"

definition OpenAIProvider_init ::
  "string option \<Rightarrow> string \<Rightarrow> string option \<Rightarrow> (string \<times> json) list \<Rightarrow> LLMProvider" where
  "OpenAIProvider_init api_key model base_url kwargs =
     OpenAIProvider api_key model kwargs
       (if truthy_opt base_url then the base_url else ''https://api.openai.com/v1'')
       [(''Authorization'', JStr (''Bearer '' @ py_format_opt api_key)),
        (''Content-Type'', JStr ''application/json'')]"

definition AnthropicProvider_init ::
  "string option \<Rightarrow> string \<Rightarrow> (string \<times> json) list \<Rightarrow> LLMProvider" where
  "AnthropicProvider_init api_key model kwargs =
     AnthropicProvider api_key model kwargs
       [(''x-api-key'', opt_json api_key),
        (''Content-Type'', JStr ''application/json''),
        (''anthropic-version'', JStr ''2023-06-01'')]"

definition CustomProvider_init ::
  "string option \<Rightarrow> string \<Rightarrow> string \<Rightarrow> (string \<times> json) list \<Rightarrow> LLMProvider" where
  "CustomProvider_init api_key model base_url kwargs =
     CustomProvider api_key model kwargs (rstrip_slash base_url)
       [(''Authorization'', JStr (''Bearer '' @ py_format_opt api_key)),
        (''Content-Type'', JStr ''application/json'')]"

text \<open>
  The request \<open>OpenAIProvider.generate_response\<close> posts: \<open>url\<close>, \<open>self.headers\<close>, \<open>payload\<close>
  and the fixed timeout.
\<close>

definition openai_payload ::
  "string \<Rightarrow> message list \<Rightarrow> (string \<times> json) list \<Rightarrow> (string \<times> json) list" where
  "openai_payload model messages kwargs =
     [(''model'', JStr model),
      (''messages'', JArr (map message_json messages)),
      (''max_tokens'', kwargs_get kwargs ''max_tokens'' (JInt 1000)),
      (''temperature'', kwargs_get kwargs ''temperature'' (JFloat (7 / 10))),
      (''stream'', JBool False)]"

definition openai_request ::
  "string \<Rightarrow> (string \<times> json) list \<Rightarrow> string \<Rightarrow> message list \<Rightarrow> (string \<times> json) list
     \<Rightarrow> http_request" where
  "openai_request base_url headers model messages kwargs =
     \<lparr>req_url = base_url @ ''/chat/completions'', req_headers = headers,
      req_json = openai_payload model messages kwargs,
      req_timeout = 30, req_stream = False\<rparr>"

text \<open>
  Reading an OpenAI-shaped body: \<open>choice = data["choices"][0]\<close>, then the arguments of
  \<open>LLMResponse(...)\<close> in the order the call evaluates them.
\<close>

definition read_choice_response :: "string \<Rightarrow> string \<Rightarrow> json \<Rightarrow> exn + LLMResponse" where
  "read_choice_response model tag data =
     and_then (py_getitem data ''choices'') (\<lambda>choices.
     and_then (py_getitem0 choices) (\<lambda>choice.
     and_then (py_getitem choice ''message'') (\<lambda>msg.
     and_then (py_getitem msg ''content'') (\<lambda>c.
     and_then (py_get data ''usage'' JNull) (\<lambda>u.
     and_then (py_get choice ''finish_reason'' JNull) (\<lambda>f.
       Inr \<lparr>resp_content = c, resp_model = model, resp_usage = u,
            resp_finish_reason = f, resp_provider = tag\<rparr>))))))"

text \<open>
  \<open>OpenAIProvider.generate_response\<close>, on the attributes of \<open>self\<close> it reads. Both
  \<open>except\<close> clauses log and re-raise, and any other exception propagates as it is, so
  every exception leaves the function unchanged.
\<close>

definition openai_generate_response ::
  "transport \<Rightarrow> string \<Rightarrow> (string \<times> json) list \<Rightarrow> string \<Rightarrow> message list
     \<Rightarrow> (string \<times> json) list \<Rightarrow> exn + LLMResponse" where
  "openai_generate_response post base_url headers model messages kwargs =
     and_then (post (openai_request base_url headers model messages kwargs))
       (read_choice_response model ''openai'')"

text \<open>
  The loop of \<open>AnthropicProvider.generate_response\<close> over the messages, on the pair
  \<open>(system_message, user_messages)\<close>.
\<close>

fun anthropic_convert :: "message list \<Rightarrow> string \<times> string list \<Rightarrow> string \<times> string list" where
  "anthropic_convert [] st = st"
| "anthropic_convert (msg # msgs) (system_message, user_messages) =
     anthropic_convert msgs
       (if role msg = ''system'' then (content msg, user_messages)
        else if role msg = ''user'' then (system_message, user_messages @ [content msg])
        else if role msg = ''assistant'' then (system_message, user_messages @ [content msg])
        else (system_message, user_messages))"

definition anthropic_payload ::
  "string \<Rightarrow> message list \<Rightarrow> (string \<times> json) list \<Rightarrow> (string \<times> json) list" where
  "anthropic_payload model messages kwargs =
     (let (system_message, user_messages) = anthropic_convert messages ([], []);
          user_content = py_join [CHR 0x0A, CHR 0x0A] user_messages;
          payload =
            [(''model'', JStr model),
             (''max_tokens'', kwargs_get kwargs ''max_tokens'' (JInt 1000)),
             (''temperature'', kwargs_get kwargs ''temperature'' (JFloat (7 / 10))),
             (''messages'', JArr [JObj [(''role'', JStr ''user''), (''content'', JStr user_content)]])]
      in if system_message \<noteq> [] then payload @ [(''system'', JStr system_message)] else payload)"

definition anthropic_request ::
  "(string \<times> json) list \<Rightarrow> string \<Rightarrow> message list \<Rightarrow> (string \<times> json) list \<Rightarrow> http_request" where
  "anthropic_request headers model messages kwargs =
     \<lparr>req_url = ''https://api.anthropic.com/v1/messages'', req_headers = headers,
      req_json = anthropic_payload model messages kwargs,
      req_timeout = 30, req_stream = False\<rparr>"

text \<open>
  Reading an Anthropic body: \<open>content = data["content"][0]["text"]\<close>, then \<open>usage\<close> and
  \<open>finish_reason\<close>.
\<close>

definition read_anthropic_response :: "string \<Rightarrow> json \<Rightarrow> exn + LLMResponse" where
  "read_anthropic_response model data =
     and_then (py_getitem data ''content'') (\<lambda>blocks.
     and_then (py_getitem0 blocks) (\<lambda>block.
     and_then (py_getitem block ''text'') (\<lambda>c.
     and_then (py_get data ''usage'' JNull) (\<lambda>u.
     and_then (py_get data ''stop_reason'' JNull) (\<lambda>f.
       Inr \<lparr>resp_content = c, resp_model = model, resp_usage = u,
            resp_finish_reason = f, resp_provider = ''anthropic''\<rparr>)))))"

definition anthropic_generate_response ::
  "transport \<Rightarrow> (string \<times> json) list \<Rightarrow> string \<Rightarrow> message list \<Rightarrow> (string \<times> json) list
     \<Rightarrow> exn + LLMResponse" where
  "anthropic_generate_response post headers model messages kwargs =
     and_then (post (anthropic_request headers model messages kwargs))
       (read_anthropic_response model)"

text \<open>The request \<open>CustomProvider.generate_response\<close> posts.\<close>

definition custom_payload ::
  "string \<Rightarrow> message list \<Rightarrow> (string \<times> json) list \<Rightarrow> (string \<times> json) list" where
  "custom_payload model messages kwargs =
     [(''model'', JStr model),
      (''messages'', JArr (map message_json messages)),
      (''max_tokens'', kwargs_get kwargs ''max_tokens'' (JInt 1000)),
      (''temperature'', kwargs_get kwargs ''temperature'' (JFloat (7 / 10)))]"

definition custom_request ::
  "string \<Rightarrow> (string \<times> json) list \<Rightarrow> string \<Rightarrow> message list \<Rightarrow> (string \<times> json) list
     \<Rightarrow> http_request" where
  "custom_request base_url headers model messages kwargs =
     \<lparr>req_url = base_url @ ''/chat/completions'', req_headers = headers,
      req_json = custom_payload model messages kwargs,
      req_timeout = 30, req_stream = False\<rparr>"

definition custom_generate_response ::
  "transport \<Rightarrow> string \<Rightarrow> (string \<times> json) list \<Rightarrow> string \<Rightarrow> message list
     \<Rightarrow> (string \<times> json) list \<Rightarrow> exn + LLMResponse" where
  "custom_generate_response post base_url headers model messages kwargs =
     and_then (post (custom_request base_url headers model messages kwargs))
       (read_choice_response model ''custom'')"

text \<open>
  A generator, as its consumer sees it: the fragments it yields, then either its normal
  end (\<open>None\<close>) or the exception it raises.
\<close>

type_synonym fragments = "json list \<times> exn option"

text \<open>
  \<open>AnthropicProvider.stream_response\<close> and \<open>CustomProvider.stream_response\<close> have the same
  body after the call of their own \<open>generate_response\<close>: \<open>response.content.split()\<close>, then
  one fragment per word. Only a string has \<open>split\<close>.
\<close>

definition stream_words :: "exn + LLMResponse \<Rightarrow> fragments" where
  "stream_words response =
     (case response of
        Inl e \<Rightarrow> ([], Some e)
      | Inr r \<Rightarrow>
          (case resp_content r of
             JStr s \<Rightarrow> (map (\<lambda>word. JStr (word @ '' '')) (py_split s), None)
           | _ \<Rightarrow> ([], Some (AttributeError ''object has no attribute split''))))"

definition anthropic_stream_response ::
  "transport \<Rightarrow> (string \<times> json) list \<Rightarrow> string \<Rightarrow> message list \<Rightarrow> (string \<times> json) list
     \<Rightarrow> fragments" where
  "anthropic_stream_response post headers model messages kwargs =
     stream_words (anthropic_generate_response post headers model messages kwargs)"

definition custom_stream_response ::
  "transport \<Rightarrow> string \<Rightarrow> (string \<times> json) list \<Rightarrow> string \<Rightarrow> message list
     \<Rightarrow> (string \<times> json) list \<Rightarrow> fragments" where
  "custom_stream_response post base_url headers model messages kwargs =
     stream_words (custom_generate_response post base_url headers model messages kwargs)"

subsection \<open>OpenAI streaming\<close>

text \<open>
  \<open>payload\<close> and the request of \<open>OpenAIProvider.stream_response\<close>.
\<close>

definition openai_stream_payload ::
  "string \<Rightarrow> message list \<Rightarrow> (string \<times> json) list \<Rightarrow> (string \<times> json) list" where
  "openai_stream_payload model messages kwargs =
     [(''model'', JStr model),
      (''messages'', JArr (map message_json messages)),
      (''max_tokens'', kwargs_get kwargs ''max_tokens'' (JInt 1000)),
      (''temperature'', kwargs_get kwargs ''temperature'' (JFloat (7 / 10))),
      (''stream'', JBool True)]"

definition openai_stream_request ::
  "string \<Rightarrow> (string \<times> json) list \<Rightarrow> string \<Rightarrow> message list \<Rightarrow> (string \<times> json) list
     \<Rightarrow> http_request" where
  "openai_stream_request base_url headers model messages kwargs =
     \<lparr>req_url = base_url @ ''/chat/completions'', req_headers = headers,
      req_json = openai_stream_payload model messages kwargs,
      req_timeout = 30, req_stream = True\<rparr>"

text \<open>
  The body of the \<open>try\<close> after \<open>json_data = json.loads(data)\<close>: the fragment to yield, if
  any. None of the exceptions raised here is a \<open>JSONDecodeError\<close>, so none is caught by
  the inner \<open>except\<close>.
\<close>

definition delta_fragment :: "json \<Rightarrow> exn + json option" where
  "delta_fragment json_data =
     and_then (py_contains ''choices'' json_data) (\<lambda>has_choices.
       if \<not> has_choices then Inr None
       else
         and_then (py_getitem json_data ''choices'') (\<lambda>choices.
         and_then (py_len choices) (\<lambda>n.
           if \<not> 0 < n then Inr None
           else
             and_then (py_getitem0 choices) (\<lambda>choice.
             and_then (py_get choice ''delta'' (JObj [])) (\<lambda>delta.
             and_then (py_contains ''content'' delta) (\<lambda>has_content.
               if \<not> has_content then Inr None
               else and_then (py_getitem delta ''content'') (\<lambda>v. Inr (Some v))))))))"

text \<open>
  One turn of the loop over \<open>response.iter_lines()\<close>. \<open>decode\<close> is \<open>bytes.decode('utf-8')\<close>
  and \<open>loads\<close> is \<open>json.loads\<close>, both library functions and parameters here; \<open>None\<close> is
  their \<open>UnicodeDecodeError\<close> and \<open>JSONDecodeError\<close>.
\<close>

datatype line_step = Skip | Yield json | Break | Raise exn

definition openai_stream_line ::
  "(string \<Rightarrow> string option) \<Rightarrow> (string \<Rightarrow> json option) \<Rightarrow> string \<Rightarrow> line_step" where
  "openai_stream_line decode loads raw =
     (if raw = [] then Skip
      else
        (case decode raw of
           None \<Rightarrow> Raise (UnicodeDecodeError ''utf-8 codec cannot decode'')
         | Some line \<Rightarrow>
             if starts_with ''data: '' line then
               (let data = drop 6 line in
                if py_strip data = ''[DONE]'' then Break
                else
                  (case loads data of
                     None \<Rightarrow> Skip
                   | Some json_data \<Rightarrow>
                       (case delta_fragment json_data of
                          Inl e \<Rightarrow> Raise e
                        | Inr None \<Rightarrow> Skip
                        | Inr (Some v) \<Rightarrow> Yield v)))
             else Skip))"

text \<open>
  The loop. \<open>fin\<close> is how \<open>iter_lines\<close> ends after its last line: normally, or with an
  exception of the connection. The \<open>except RequestException\<close> around the loop logs and
  re-raises.
\<close>

fun openai_stream_lines ::
  "(string \<Rightarrow> string option) \<Rightarrow> (string \<Rightarrow> json option) \<Rightarrow> string list \<Rightarrow> exn option
     \<Rightarrow> fragments" where
  "openai_stream_lines decode loads [] fin = ([], fin)"
| "openai_stream_lines decode loads (raw # rest) fin =
     (case openai_stream_line decode loads raw of
        Skip \<Rightarrow> openai_stream_lines decode loads rest fin
      | Yield v \<Rightarrow>
          (v # fst (openai_stream_lines decode loads rest fin),
           snd (openai_stream_lines decode loads rest fin))
      | Break \<Rightarrow> ([], None)
      | Raise e \<Rightarrow> ([], Some e))"

text \<open>
  The streaming network: a request is answered by the exception of \<open>requests.post\<close> or
  \<open>raise_for_status\<close>, or by the lines \<open>iter_lines\<close> produces and the way it ends.
\<close>

type_synonym stream_transport = "http_request \<Rightarrow> exn + (string list \<times> exn option)"

definition openai_stream_response ::
  "stream_transport \<Rightarrow> (string \<Rightarrow> string option) \<Rightarrow> (string \<Rightarrow> json option)
     \<Rightarrow> string \<Rightarrow> (string \<times> json) list \<Rightarrow> string \<Rightarrow> message list \<Rightarrow> (string \<times> json) list
     \<Rightarrow> fragments" where
  "openai_stream_response post_stream decode loads base_url headers model messages kwargs =
     (case post_stream (openai_stream_request base_url headers model messages kwargs) of
        Inl e \<Rightarrow> ([], Some e)
      | Inr (lines, fin) \<Rightarrow> openai_stream_lines decode loads lines fin)"

section \<open>config.py\<close>

record LLMConfig =
  cfg_provider :: string
  cfg_api_key :: "string option"
  cfg_model :: string
  cfg_base_url :: "string option"
  cfg_max_tokens :: int
  cfg_temperature :: real

record FileConfig =
  cfg_input_directory :: string
  cfg_file_extensions :: "string list"
  cfg_recursive :: bool
  cfg_max_file_size :: int
  cfg_encoding :: string

record Config =
  llm :: LLMConfig
  files :: FileConfig

text \<open>\<open>LLMConfig.validate_provider\<close>, the validator of the \<open>provider\<close> field.\<close>

definition validate_provider :: "string \<Rightarrow> exn + string" where
  "validate_provider v =
     (if v \<notin> set [''openai'', ''anthropic'', ''custom'']
      then Inl (ValueError (''Provider must be one of: ['' @ [CHR 0x27] @ ''openai'' @ [CHR 0x27]
             @ '', '' @ [CHR 0x27] @ ''anthropic'' @ [CHR 0x27]
             @ '', '' @ [CHR 0x27] @ ''custom'' @ [CHR 0x27] @ '']''))
      else Inr v)"

text \<open>\<open>Config.validate_api_key\<close>.\<close>

definition validate_api_key :: "Config \<Rightarrow> exn + bool" where
  "validate_api_key self =
     (if \<not> truthy_opt (cfg_api_key (llm self))
      then Inl (ValueError ''LLM API key is required. Set LLM_API_KEY environment variable.'')
      else Inr True)"

section \<open>LLMClient\<close>

text \<open>
  The environment of the client: the two faces of the network and the two library
  decoders.
\<close>

record network =
  net_post :: transport
  net_post_stream :: stream_transport
  net_utf8_decode :: "string \<Rightarrow> string option"
  net_json_loads :: "string \<Rightarrow> json option"

text \<open>\<open>LLMClient._create_provider\<close>.\<close>

definition create_provider :: "Config \<Rightarrow> exn + LLMProvider" where
  "create_provider config =
     (let provider_config = llm config;
          kw = [(''max_tokens'', JInt (cfg_max_tokens provider_config)),
                (''temperature'', JFloat (cfg_temperature provider_config))]
      in if cfg_provider provider_config = ''openai'' then
           Inr (OpenAIProvider_init (cfg_api_key provider_config) (cfg_model provider_config)
                  (cfg_base_url provider_config) kw)
         else if cfg_provider provider_config = ''anthropic'' then
           Inr (AnthropicProvider_init (cfg_api_key provider_config) (cfg_model provider_config) kw)
         else if cfg_provider provider_config = ''custom'' then
           (if \<not> truthy_opt (cfg_base_url provider_config)
            then Inl (ValueError ''base_url is required for custom provider'')
            else Inr (CustomProvider_init (cfg_api_key provider_config) (cfg_model provider_config)
                        (the (cfg_base_url provider_config)) kw))
         else Inl (ValueError (''Unsupported provider: '' @ cfg_provider provider_config)))"

record LLMClient =
  client_config :: Config
  client_provider :: LLMProvider

text \<open>\<open>LLMClient.__init__\<close>.\<close>

definition LLMClient_init :: "Config \<Rightarrow> exn + LLMClient" where
  "LLMClient_init config =
     and_then (create_provider config)
       (\<lambda>p. Inr \<lparr>client_config = config, client_provider = p\<rparr>)"

text \<open>
  \<open>LLMClient.generate_response\<close> and \<open>LLMClient.stream_response\<close>: the call goes to the
  method of the provider's class.
\<close>

definition generate_response ::
  "network \<Rightarrow> LLMClient \<Rightarrow> message list \<Rightarrow> (string \<times> json) list \<Rightarrow> exn + LLMResponse" where
  "generate_response net self messages kwargs =
     (case client_provider self of
        OpenAIProvider api_key model skw base_url headers \<Rightarrow>
          openai_generate_response (net_post net) base_url headers model messages kwargs
      | AnthropicProvider api_key model skw headers \<Rightarrow>
          anthropic_generate_response (net_post net) headers model messages kwargs
      | CustomProvider api_key model skw base_url headers \<Rightarrow>
          custom_generate_response (net_post net) base_url headers model messages kwargs)"

definition stream_response ::
  "network \<Rightarrow> LLMClient \<Rightarrow> message list \<Rightarrow> (string \<times> json) list \<Rightarrow> fragments" where
  "stream_response net self messages kwargs =
     (case client_provider self of
        OpenAIProvider api_key model skw base_url headers \<Rightarrow>
          openai_stream_response (net_post_stream net) (net_utf8_decode net) (net_json_loads net)
            base_url headers model messages kwargs
      | AnthropicProvider api_key model skw headers \<Rightarrow>
          anthropic_stream_response (net_post net) headers model messages kwargs
      | CustomProvider api_key model skw base_url headers \<Rightarrow>
          custom_stream_response (net_post net) base_url headers model messages kwargs)"

text \<open>
  The list \<open>messages\<close> that \<open>LLMClient.process_file_content\<close> builds before it calls
  \<open>generate_response\<close>, and the method itself.
\<close>

definition system_prompt :: string where
  "system_prompt =
     ''You are a helpful AI assistant that analyzes and responds to text content provided by the user.''"

definition process_file_messages :: "string \<Rightarrow> string option \<Rightarrow> message list" where
  "process_file_messages file_content user_prompt =
     (let messages =
            [\<lparr>role = ''system'', content = system_prompt\<rparr>,
             \<lparr>role = ''user'',
              content = ''Please analyze the following text content:'' @ [CHR 0x0A, CHR 0x0A]
                          @ file_content\<rparr>]
      in if truthy_opt user_prompt
         then messages @ [\<lparr>role = ''user'', content = the user_prompt\<rparr>]
         else messages)"

definition process_file_content ::
  "network \<Rightarrow> LLMClient \<Rightarrow> string \<Rightarrow> string option \<Rightarrow> exn + LLMResponse" where
  "process_file_content net self file_content user_prompt =
     generate_response net self (process_file_messages file_content user_prompt) []"

section \<open>file_reader.py\<close>

record FileContent =
  fc_file_path :: string
  fc_content :: string
  fc_file_size :: int
  fc_encoding :: string

record FileReader =
  input_directory :: string
  file_extensions :: "string list"
  recursive :: bool
  max_file_size :: int
  encoding :: string

text \<open>
  \<open>FileReader.__init__\<close>: an empty list of extensions is replaced by the default, and
  every extension gets its leading dot.
\<close>

definition FileReader_init :: "string \<Rightarrow> string list \<Rightarrow> bool \<Rightarrow> int \<Rightarrow> string \<Rightarrow> FileReader" where
  "FileReader_init dir exts rec max_size enc =
     \<lparr>input_directory = dir,
      file_extensions =
        map (\<lambda>ext. if starts_with ''.'' ext then ext else ''.'' @ ext)
          (if exts \<noteq> [] then exts else [''.txt'', ''.md'']),
      recursive = rec, max_file_size = max_size, encoding = enc\<rparr>"

text \<open>
  The file system, as the reader meets it. It does not change during a run: a path
  answers every call the same way. \<open>fs_stat\<close> is \<open>path.stat().st_size\<close>, or the text
  of the \<open>OSError\<close> it raises; \<open>fs_read\<close> is \<open>open(path, 'r', encoding=enc)\<close> followed
  by \<open>read()\<close>, or the exception either of them raises. \<open>fs_glob\<close> lists the directory
  for a pattern, and \<open>fs_suffix_lower\<close> is \<open>path.suffix.lower()\<close>.
\<close>

record filesystem =
  fs_exists :: "string \<Rightarrow> bool"
  fs_is_dir :: "string \<Rightarrow> bool"
  fs_glob :: "string \<Rightarrow> string \<Rightarrow> string list"
  fs_is_file :: "string \<Rightarrow> bool"
  fs_suffix_lower :: "string \<Rightarrow> string"
  fs_stat :: "string \<Rightarrow> string + int"
  fs_read :: "string \<Rightarrow> string \<Rightarrow> exn + string"

text \<open>\<open>FileReader.scan_directory\<close>.\<close>

definition scan_directory :: "filesystem \<Rightarrow> FileReader \<Rightarrow> string list" where
  "scan_directory fs self =
     (if \<not> fs_exists fs (input_directory self) then []
      else if \<not> fs_is_dir fs (input_directory self) then []
      else
        filter
          (\<lambda>file_path.
             fs_is_file fs file_path \<and> fs_suffix_lower fs file_path \<in> set (file_extensions self)
             \<and> (case fs_stat fs file_path of
                  Inl err \<Rightarrow> False
                | Inr file_size \<Rightarrow> file_size \<le> max_file_size self))
          (fs_glob fs (input_directory self) (if recursive self then ''**/*'' else ''*'')))"

text \<open>
  The loop of \<open>read_file\<close> over the fallback encodings. It runs inside the handler of
  \<open>UnicodeDecodeError\<close>, so an exception of any other class leaves \<open>read_file\<close>.
\<close>

fun read_fallback ::
  "filesystem \<Rightarrow> string \<Rightarrow> int \<Rightarrow> string list \<Rightarrow> exn + FileContent option" where
  "read_fallback fs file_path file_size [] = Inr None"
| "read_fallback fs file_path file_size (enc # encs) =
     (case fs_read fs file_path enc of
        Inr text \<Rightarrow>
          Inr (Some \<lparr>fc_file_path = file_path, fc_content = text,
                     fc_file_size = file_size, fc_encoding = enc\<rparr>)
      | Inl (UnicodeDecodeError m) \<Rightarrow> read_fallback fs file_path file_size encs
      | Inl e \<Rightarrow> Inl e)"

text \<open>\<open>FileReader.read_file\<close>: \<open>None\<close> is its answer when reading failed.\<close>

definition read_file :: "filesystem \<Rightarrow> FileReader \<Rightarrow> string \<Rightarrow> exn + FileContent option" where
  "read_file fs self file_path =
     (case fs_stat fs file_path of
        Inl err \<Rightarrow> Inr None
      | Inr file_size \<Rightarrow>
          if file_size > max_file_size self then Inr None
          else
            (case fs_read fs file_path (encoding self) of
               Inr text \<Rightarrow>
                 Inr (Some \<lparr>fc_file_path = file_path, fc_content = text,
                            fc_file_size = file_size, fc_encoding = encoding self\<rparr>)
             | Inl (UnicodeDecodeError m) \<Rightarrow>
                 read_fallback fs file_path file_size [''latin-1'', ''cp1252'', ''iso-8859-1'']
             | Inl e \<Rightarrow> Inr None))"

text \<open>
  \<open>FileReader.get_files_summary\<close>: the loop over the scanned files on the pair
  \<open>(total_size, successful_reads)\<close>. An \<open>OSError\<close> inside the loop body is passed over;
  any other exception of \<open>read_file\<close> leaves the method.
\<close>

fun summary_loop ::
  "filesystem \<Rightarrow> FileReader \<Rightarrow> string list \<Rightarrow> int \<times> nat \<Rightarrow> exn + int \<times> nat" where
  "summary_loop fs self [] acc = Inr acc"
| "summary_loop fs self (file_path # rest) (total_size, successful_reads) =
     (case fs_stat fs file_path of
        Inl err \<Rightarrow> summary_loop fs self rest (total_size, successful_reads)
      | Inr file_size \<Rightarrow>
          (case read_file fs self file_path of
             Inr (Some fc) \<Rightarrow>
               summary_loop fs self rest (total_size + file_size, Suc successful_reads)
           | Inr None \<Rightarrow> summary_loop fs self rest (total_size + file_size, successful_reads)
           | Inl (OSError m) \<Rightarrow>
               summary_loop fs self rest (total_size + file_size, successful_reads)
           | Inl e \<Rightarrow> Inl e))"

record files_summary =
  fsum_total_files :: nat
  fsum_successful_reads :: nat
  fsum_total_size_bytes :: int

definition get_files_summary :: "filesystem \<Rightarrow> FileReader \<Rightarrow> exn + files_summary" where
  "get_files_summary fs self =
     (let files = scan_directory fs self
      in and_then (summary_loop fs self files (0, 0)) (\<lambda>(total_size, successful_reads).
           Inr \<lparr>fsum_total_files = length files, fsum_successful_reads = successful_reads,
                fsum_total_size_bytes = total_size\<rparr>))"

text \<open>
  \<open>FileReader.read_all_files\<close>, as a consumer that takes every item sees it: the files
  read, or the exception that ended the generator.
\<close>

fun read_all_loop :: "filesystem \<Rightarrow> FileReader \<Rightarrow> string list \<Rightarrow> exn + FileContent list" where
  "read_all_loop fs self [] = Inr []"
| "read_all_loop fs self (file_path # rest) =
     and_then (read_file fs self file_path) (\<lambda>file_content.
     and_then (read_all_loop fs self rest) (\<lambda>more.
       Inr (case file_content of None \<Rightarrow> more | Some fc \<Rightarrow> fc # more)))"

definition read_all_files :: "filesystem \<Rightarrow> FileReader \<Rightarrow> exn + FileContent list" where
  "read_all_files fs self = read_all_loop fs self (scan_directory fs self)"

section \<open>agent.py\<close>

record ProcessingResult =
  file_path :: string
  file_content :: FileContent
  llm_response :: "LLMResponse option"
  processing_time :: real
  success :: bool
  error_message :: "string option"

text \<open>
  \<open>ProcessingResult.to_dict\<close>. The entries are evaluated in order; \<open>self.llm_response\<close>
  that is \<open>None\<close> has no method \<open>to_dict\<close>.
\<close>

definition to_dict :: "ProcessingResult \<Rightarrow> exn + json" where
  "to_dict self =
     and_then
       (case llm_response self of
          None \<Rightarrow> Inl (AttributeError
                   ([CHR 0x27] @ ''NoneType'' @ [CHR 0x27] @ '' object has no attribute ''
                      @ [CHR 0x27] @ ''to_dict'' @ [CHR 0x27]))
        | Some r \<Rightarrow> Inr (LLMResponse_to_dict r))
       (\<lambda>response_dict.
          Inr (JObj
            [(''file_path'', JStr (file_path self)),
             (''file_size'', JInt (fc_file_size (file_content self))),
             (''encoding'', JStr (fc_encoding (file_content self))),
             (''llm_response'', response_dict),
             (''processing_time'', JFloat (processing_time self)),
             (''success'', JBool (success self)),
             (''error_message'', opt_json (error_message self))]))"

record AIAgent =
  agent_config :: Config
  file_reader :: FileReader
  llm_client :: LLMClient

text \<open>\<open>AIAgent.__init__\<close> on a given configuration.\<close>

definition AIAgent_init :: "Config \<Rightarrow> exn + AIAgent" where
  "AIAgent_init config =
     and_then (validate_api_key config) (\<lambda>ok.
     and_then (LLMClient_init config) (\<lambda>client.
       Inr \<lparr>agent_config = config,
            file_reader =
              FileReader_init (cfg_input_directory (files config))
                (cfg_file_extensions (files config)) (cfg_recursive (files config))
                (cfg_max_file_size (files config)) (cfg_encoding (files config)),
            llm_client = client\<rparr>))"

text \<open>
  The world an agent runs in: the network, the file system, and the clock. \<open>w_clock\<close>
  gives, for the file being processed, the reading of \<open>time.time()\<close> at the start of
  \<open>process_single_file\<close> and the reading when the result is built.
\<close>

record world =
  w_net :: network
  w_fs :: filesystem
  w_clock :: "string \<Rightarrow> real \<times> real"

text \<open>The placeholder \<open>FileContent(file_path, "", 0, "utf-8")\<close> of a failed result.\<close>

definition empty_content :: "string \<Rightarrow> FileContent" where
  "empty_content path =
     \<lparr>fc_file_path = path, fc_content = [], fc_file_size = 0, fc_encoding = ''utf-8''\<rparr>"

text \<open>
  The \<open>try\<close> block of \<open>AIAgent.process_single_file\<close>: the result it returns, or the
  exception that leaves it.
\<close>

definition process_single_file_try ::
  "world \<Rightarrow> AIAgent \<Rightarrow> string \<Rightarrow> string option \<Rightarrow> exn + ProcessingResult" where
  "process_single_file_try w self path user_prompt =
     (let start_time = fst (w_clock w path); now = snd (w_clock w path)
      in and_then (read_file (w_fs w) (file_reader self) path) (\<lambda>content_read.
           case content_read of
             None \<Rightarrow>
               Inr \<lparr>file_path = path, file_content = empty_content path, llm_response = None,
                    processing_time = now - start_time, success = False,
                    error_message = Some ''Failed to read file''\<rparr>
           | Some fc \<Rightarrow>
               and_then (process_file_content (w_net w) (llm_client self) (fc_content fc) user_prompt)
                 (\<lambda>response.
                    Inr \<lparr>file_path = path, file_content = fc, llm_response = Some response,
                         processing_time = now - start_time, success = True,
                         error_message = None\<rparr>)))"

text \<open>\<open>AIAgent.process_single_file\<close>: the \<open>try\<close> block under \<open>except Exception\<close>.\<close>

definition process_single_file ::
  "world \<Rightarrow> AIAgent \<Rightarrow> string \<Rightarrow> string option \<Rightarrow> exn + ProcessingResult" where
  "process_single_file w self path user_prompt =
     (case process_single_file_try w self path user_prompt of
        Inr result \<Rightarrow> Inr result
      | Inl e \<Rightarrow>
          Inr \<lparr>file_path = path, file_content = empty_content path, llm_response = None,
               processing_time = snd (w_clock w path) - fst (w_clock w path), success = False,
               error_message = Some (''Error processing '' @ path @ '': '' @ py_str_exn e)\<rparr>)"

text \<open>
  \<open>AIAgent.process_all_files\<close>, as \<open>list(...)\<close> consumes it: the results of all files,
  or the exception that ended the generator.
\<close>

fun process_each ::
  "world \<Rightarrow> AIAgent \<Rightarrow> string option \<Rightarrow> FileContent list \<Rightarrow> exn + ProcessingResult list" where
  "process_each w self user_prompt [] = Inr []"
| "process_each w self user_prompt (fc # rest) =
     and_then (process_single_file w self (fc_file_path fc) user_prompt) (\<lambda>result.
     and_then (process_each w self user_prompt rest) (\<lambda>more. Inr (result # more)))"

definition process_all_files ::
  "world \<Rightarrow> AIAgent \<Rightarrow> string option \<Rightarrow> exn + ProcessingResult list" where
  "process_all_files w self user_prompt =
     and_then (get_files_summary (w_fs w) (file_reader self)) (\<lambda>files_summary.
     and_then (read_all_files (w_fs w) (file_reader self)) (\<lambda>contents.
       process_each w self user_prompt contents))"

text \<open>\<open>AIAgent.process_files_with_prompt\<close>.\<close>

fun process_files_with_prompt ::
  "world \<Rightarrow> AIAgent \<Rightarrow> string list \<Rightarrow> string \<Rightarrow> exn + ProcessingResult list" where
  "process_files_with_prompt w self [] prompt = Inr []"
| "process_files_with_prompt w self (path # rest) prompt =
     and_then (process_single_file w self path (Some prompt)) (\<lambda>result.
     and_then (process_files_with_prompt w self rest prompt) (\<lambda>more. Inr (result # more)))"

text \<open>
  \<open>AIAgent.stream_file_processing\<close>: first the \<open>try\<close> block as a generator, then the
  generator under \<open>except Exception\<close>, which yields one more fragment and ends.
\<close>

definition stream_file_processing_try ::
  "world \<Rightarrow> AIAgent \<Rightarrow> string \<Rightarrow> string option \<Rightarrow> fragments" where
  "stream_file_processing_try w self path user_prompt =
     (case read_file (w_fs w) (file_reader self) path of
        Inl e \<Rightarrow> ([], Some e)
      | Inr None \<Rightarrow> ([JStr ''Error: Failed to read file''], None)
      | Inr (Some fc) \<Rightarrow>
          (let messages =
                 [\<lparr>role = ''system'', content = system_prompt\<rparr>,
                  \<lparr>role = ''user'',
                   content = ''Please analyze the following text content:''
                               @ [CHR 0x0A, CHR 0x0A] @ fc_content fc\<rparr>];
               messages =
                 (if truthy_opt user_prompt
                  then messages @ [\<lparr>role = ''user'', content = the user_prompt\<rparr>]
                  else messages)
           in stream_response (w_net w) (llm_client self) messages []))"

definition stream_file_processing ::
  "world \<Rightarrow> AIAgent \<Rightarrow> string \<Rightarrow> string option \<Rightarrow> fragments" where
  "stream_file_processing w self path user_prompt =
     (case stream_file_processing_try w self path user_prompt of
        (chunks, None) \<Rightarrow> (chunks, None)
      | (chunks, Some e) \<Rightarrow> (chunks @ [JStr (''Error: '' @ py_str_exn e)], None))"

text \<open>
  \<open>total + v\<close> where \<open>total\<close> is the running sum of \<open>sum(...)\<close>, which starts at the
  integer 0 and stays a number; a boolean counts as 0 or 1.
\<close>

fun py_add :: "json \<Rightarrow> json \<Rightarrow> exn + json" where
  "py_add (JInt a) (JInt b) = Inr (JInt (a + b))"
| "py_add (JInt a) (JBool b) = Inr (JInt (a + (if b then 1 else 0)))"
| "py_add (JInt a) (JFloat b) = Inr (JFloat (of_int a + b))"
| "py_add (JFloat a) (JInt b) = Inr (JFloat (a + of_int b))"
| "py_add (JFloat a) (JBool b) = Inr (JFloat (a + (if b then 1 else 0)))"
| "py_add (JFloat a) (JFloat b) = Inr (JFloat (a + b))"
| "py_add a b = Inl (TypeError ''unsupported operand type(s) for +'')"

text \<open>
  The sum of \<open>total_tokens\<close> in \<open>batch_process_with_summary\<close>, over the successful
  results: a result takes part when \<open>r.llm_response and r.llm_response.usage\<close> is true,
  with \<open>usage.get('total_tokens', 0)\<close>.
\<close>

fun sum_tokens :: "ProcessingResult list \<Rightarrow> json \<Rightarrow> exn + json" where
  "sum_tokens [] acc = Inr acc"
| "sum_tokens (r # rs) acc =
     (case llm_response r of
        None \<Rightarrow> sum_tokens rs acc
      | Some response \<Rightarrow>
          if truthy (resp_usage response) then
            and_then (py_get (resp_usage response) ''total_tokens'' (JInt 0)) (\<lambda>v.
            and_then (py_add acc v) (\<lambda>acc'. sum_tokens rs acc'))
          else sum_tokens rs acc)"

text \<open>\<open>[r.to_dict() for r in results]\<close>.\<close>

fun to_dicts :: "ProcessingResult list \<Rightarrow> exn + json list" where
  "to_dicts [] = Inr []"
| "to_dicts (r # rs) =
     and_then (to_dict r) (\<lambda>d. and_then (to_dicts rs) (\<lambda>ds. Inr (d # ds)))"

record batch_summary =
  total_files :: nat
  successful :: nat
  failed :: nat
  total_processing_time :: real
  average_processing_time :: real
  total_tokens :: json
  results :: "json list"
  errors :: "string list"

text \<open>
  The part of \<open>AIAgent.batch_process_with_summary\<close> after \<open>results\<close> is in hand, and
  the method.
\<close>

definition summarize :: "ProcessingResult list \<Rightarrow> exn + batch_summary" where
  "summarize rs =
     (let successful_results = filter success rs;
          failed_results = filter (\<lambda>r. \<not> success r) rs;
          total_time = sum_list (map processing_time rs)
      in and_then (sum_tokens successful_results (JInt 0)) (\<lambda>tokens.
         and_then (to_dicts rs) (\<lambda>dicts.
           Inr \<lparr>total_files = length rs,
                successful = length successful_results,
                failed = length failed_results,
                total_processing_time = total_time,
                average_processing_time = (if rs \<noteq> [] then total_time / real (length rs) else 0),
                total_tokens = tokens,
                results = dicts,
                errors = map (\<lambda>r. the (error_message r))
                           (filter (\<lambda>r. truthy_opt (error_message r)) failed_results)\<rparr>)))"

definition batch_process_with_summary ::
  "world \<Rightarrow> AIAgent \<Rightarrow> string option \<Rightarrow> exn + batch_summary" where
  "batch_process_with_summary w self user_prompt =
     and_then (process_all_files w self user_prompt) summarize"

section \<open>Example inputs\<close>

text \<open>A configuration with a given provider name and base URL, and the defaults elsewhere.\<close>

definition example_llm_config :: "string \<Rightarrow> string option \<Rightarrow> Config" where
  "example_llm_config name url =
     \<lparr>llm = \<lparr>cfg_provider = name, cfg_api_key = Some ''sk-test'', cfg_model = ''model-1'',
              cfg_base_url = url, cfg_max_tokens = 1000, cfg_temperature = 7 / 10\<rparr>,
      files = \<lparr>cfg_input_directory = ''./input'', cfg_file_extensions = [''.txt'', ''.md''],
                cfg_recursive = True, cfg_max_file_size = 1048576, cfg_encoding = ''utf-8''\<rparr>\<rparr>"

text \<open>
  The keyword arguments \<open>_create_provider\<close> hands to every provider constructor:
  \<open>max_tokens\<close> and \<open>temperature\<close> of the configuration.
\<close>

definition config_kwargs :: "Config \<Rightarrow> (string \<times> json) list" where
  "config_kwargs c =
     [(''max_tokens'', JInt (cfg_max_tokens (llm c))),
      (''temperature'', JFloat (cfg_temperature (llm c)))]"

section \<open>Paths into a JSON document\<close>

text \<open>
  A path such as \<open>choices[0].message.content\<close>: a key selects the member of an object,
  \<open>[0]\<close> the first element of an array. \<open>json_at\<close> is the value at the path, if the
  document has one there.
\<close>

datatype path_step = Key string | First

fun json_at :: "json \<Rightarrow> path_step list \<Rightarrow> json option" where
  "json_at v [] = Some v"
| "json_at (JObj kvs) (Key k # p) = (case map_of kvs k of None \<Rightarrow> None | Some v \<Rightarrow> json_at v p)"
| "json_at (JArr (x # xs)) (First # p) = json_at x p"
| "json_at v (s # p) = None"

text \<open>An optional member read as \<open>None\<close> when it is absent.\<close>

definition or_null :: "json option \<Rightarrow> json" where
  "or_null v = (case v of None \<Rightarrow> JNull | Some x \<Rightarrow> x)"

text \<open>
  The exceptions that subscripting raises on a body of unexpected shape: a missing key,
  an empty list, a value of the wrong type.
\<close>

fun malformed_response :: "exn \<Rightarrow> bool" where
  "malformed_response (KeyError m) = True"
| "malformed_response (IndexError m) = True"
| "malformed_response (TypeError m) = True"
| "malformed_response e = False"

text \<open>Where the content of a response is: OpenAI and Custom, then Anthropic.\<close>

definition openai_content_path :: "path_step list" where
  "openai_content_path = [Key ''choices'', First, Key ''message'', Key ''content'']"

definition anthropic_content_path :: "path_step list" where
  "anthropic_content_path = [Key ''content'', First, Key ''text'']"

text \<open>A well-formed body of each shape.\<close>

definition good_openai_body :: json where
  "good_openai_body =
     JObj [(''choices'', JArr [JObj [(''message'', JObj [(''content'', JStr ''Hello world'')]),
                                      (''finish_reason'', JStr ''stop'')]]),
           (''usage'', JObj [(''total_tokens'', JInt 7)])]"

definition good_anthropic_body :: json where
  "good_anthropic_body =
     JObj [(''content'', JArr [JObj [(''type'', JStr ''text''), (''text'', JStr ''Hello world'')]]),
           (''stop_reason'', JStr ''end_turn'')]"

section \<open>Whitespace-delimited tokens\<close>

text \<open>
  The whitespace-delimited tokens of a text, in the words of the specification: skip
  the whitespace, take the longest run of characters that are not whitespace, and go on
  after it.
\<close>

function ws_tokens :: "string \<Rightarrow> string list" where
  "ws_tokens s =
     (case dropWhile py_isspace s of
        [] \<Rightarrow> []
      | c # cs \<Rightarrow>
          takeWhile (\<lambda>x. \<not> py_isspace x) (c # cs)
            # ws_tokens (dropWhile (\<lambda>x. \<not> py_isspace x) (c # cs)))"
  by pat_completeness auto
termination
proof (relation "measure length")
  show "wf (measure length)" by simp
next
  fix s :: string and c cs
  assume a: "dropWhile py_isspace s = c # cs"
  have "\<not> py_isspace c"
    using a hd_dropWhile [of py_isspace s] by auto
  then have "length (dropWhile (\<lambda>x. \<not> py_isspace x) (c # cs)) \<le> length cs"
    by (simp add: length_dropWhile_le)
  moreover have "length (c # cs) \<le> length s"
    using a length_dropWhile_le [of py_isspace s] by simp
  ultimately show "(dropWhile (\<lambda>x. \<not> py_isspace x) (c # cs), s) \<in> measure length"
    by simp
qed

declare ws_tokens.simps [simp del]

section \<open>Server-sent events\<close>

text \<open>Where a streamed chunk holds its fragment.\<close>

definition delta_content_path :: "path_step list" where
  "delta_content_path = [Key ''choices'', First, Key ''delta'', Key ''content'']"

text \<open>
  Two lines of an event stream: a chunk of JSON that carries the fragment \<open>Hi\<close> (with
  the double quotes of JSON written as the character 0x22), and the terminator; then the
  value the chunk decodes to.
\<close>

definition sse_hi_line :: string where
  "sse_hi_line =
     ''data: {'' @ [CHR 0x22] @ ''choices'' @ [CHR 0x22] @ '':[{'' @ [CHR 0x22] @ ''delta''
       @ [CHR 0x22] @ '':{'' @ [CHR 0x22] @ ''content'' @ [CHR 0x22] @ '':'' @ [CHR 0x22]
       @ ''Hi'' @ [CHR 0x22] @ ''}}]}''"

definition sse_done_line :: string where
  "sse_done_line = ''data: [DONE]''"

definition hi_chunk :: json where
  "hi_chunk = JObj [(''choices'', JArr [JObj [(''delta'', JObj [(''content'', JStr ''Hi'')])]])]"

text \<open>
  Stand-ins for the two library decoders, enough for the example: UTF-8 decoding of
  bytes below 128, and a JSON reader that knows the one chunk and rejects everything
  else.
\<close>

definition ascii_decode :: "string \<Rightarrow> string option" where
  "ascii_decode raw = (if list_all (\<lambda>c. (of_char c :: nat) < 128) raw then Some raw else None)"

definition example_loads :: "string \<Rightarrow> json option" where
  "example_loads s = (if s = drop 6 sse_hi_line then Some hi_chunk else None)"

section \<open>An example world\<close>

text \<open>
  An input directory with two small text files, \<open>a.txt\<close> holding \<open>alpha\<close> and \<open>b.txt\<close>
  holding \<open>beta\<close>; every other path does not exist.
\<close>

definition example_fs :: filesystem where
  "example_fs =
     \<lparr>fs_exists = (\<lambda>p. p = ''./input''),
      fs_is_dir = (\<lambda>p. p = ''./input''),
      fs_glob = (\<lambda>dir pattern. [''input/a.txt'', ''input/b.txt'']),
      fs_is_file = (\<lambda>p. True),
      fs_suffix_lower = (\<lambda>p. ''.txt''),
      fs_stat = (\<lambda>p. if p = ''input/a.txt'' then Inr 5
                     else if p = ''input/b.txt'' then Inr 4
                     else Inl ''No such file or directory''),
      fs_read = (\<lambda>p enc. if p = ''input/a.txt'' then Inr ''alpha''
                         else if p = ''input/b.txt'' then Inr ''beta''
                         else Inl (OSError ''No such file or directory''))\<rparr>"

text \<open>
  A network that answers every request with a well-formed body, except the request made
  for the file holding \<open>beta\<close>, which times out; its streaming side sends one chunk and
  then loses the connection.
\<close>

definition example_post :: transport where
  "example_post req =
     (if req_json req = openai_payload ''model-1'' (process_file_messages ''beta'' None) []
      then Inl (RequestException ''timed out'')
      else Inr good_openai_body)"

definition example_world :: world where
  "example_world =
     \<lparr>w_net = \<lparr>net_post = example_post,
                net_post_stream =
                  (\<lambda>req. Inr ([sse_hi_line], Some (RequestException ''connection reset''))),
                net_utf8_decode = ascii_decode,
                net_json_loads = example_loads\<rparr>,
      w_fs = example_fs,
      w_clock = (\<lambda>p. (10, 12))\<rparr>"

text \<open>
  The agent that \<open>AIAgent.__init__\<close> builds from the example configuration with the
  OpenAI provider, and the response it reads from the well-formed body.
\<close>

definition example_agent :: AIAgent where
  "example_agent =
     \<lparr>agent_config = example_llm_config ''openai'' None,
      file_reader = FileReader_init ''./input'' [''.txt'', ''.md''] True 1048576 ''utf-8'',
      llm_client =
        \<lparr>client_config = example_llm_config ''openai'' None,
         client_provider =
           OpenAIProvider_init (Some ''sk-test'') ''model-1'' None
             (config_kwargs (example_llm_config ''openai'' None))\<rparr>\<rparr>"

definition good_openai_response :: LLMResponse where
  "good_openai_response =
     \<lparr>resp_content = JStr ''Hello world'', resp_model = ''model-1'',
      resp_usage = JObj [(''total_tokens'', JInt 7)],
      resp_finish_reason = JStr ''stop'', resp_provider = ''openai''\<rparr>"

text \<open>
  The two files as \<open>read_file\<close> returns them, and the results of processing them in the
  example world: the first succeeds, the second meets the timeout.
\<close>

definition content_a :: FileContent where
  "content_a = \<lparr>fc_file_path = ''input/a.txt'', fc_content = ''alpha'', fc_file_size = 5,
                 fc_encoding = ''utf-8''\<rparr>"

definition content_b :: FileContent where
  "content_b = \<lparr>fc_file_path = ''input/b.txt'', fc_content = ''beta'', fc_file_size = 4,
                 fc_encoding = ''utf-8''\<rparr>"

definition result_a :: ProcessingResult where
  "result_a = \<lparr>file_path = ''input/a.txt'', file_content = content_a,
                llm_response = Some good_openai_response, processing_time = 2,
                success = True, error_message = None\<rparr>"

definition result_b :: ProcessingResult where
  "result_b = \<lparr>file_path = ''input/b.txt'', file_content = empty_content ''input/b.txt'',
                llm_response = None, processing_time = 2, success = False,
                error_message = Some ''Error processing input/b.txt: timed out''\<rparr>"

text \<open>
  The example world with an unreadable \<open>a.txt\<close>: reading it as UTF-8 fails to decode,
  and every other encoding is refused with \<open>Permission denied\<close>, so the exception
  leaves the fallback loop of \<open>read_file\<close>.
\<close>

definition perm_fs :: filesystem where
  "perm_fs =
     example_fs
       \<lparr>fs_read := (\<lambda>p enc. if enc = ''utf-8''
                              then Inl (UnicodeDecodeError ''invalid start byte'')
                              else Inl (OSError ''Permission denied''))\<rparr>"

definition perm_world :: world where
  "perm_world = example_world \<lparr>w_fs := perm_fs\<rparr>"

section \<open>Properties\<close>

subsection \<open>The conversation of \<open>process_file_content\<close>\<close>

text \<open>
  C10. \<open>LLMClient.process_file_content\<close> builds exactly two messages, the fixed system
  instruction and the user turn that embeds the file text, when \<open>user_prompt\<close> is \<open>None\<close>
  or the empty string; only a non-empty prompt adds a third message, a user turn holding
  the prompt. The list is what \<open>generate_response\<close> is called with.
\<close>

theorem process_file_content_messages:
  "(user_prompt = None \<or> user_prompt = Some [] \<longrightarrow>
      process_file_messages text user_prompt =
        [\<lparr>role = ''system'', content = system_prompt\<rparr>,
         \<lparr>role = ''user'',
          content = ''Please analyze the following text content:'' @ [CHR 0x0A, CHR 0x0A] @ text\<rparr>])
   \<and> (\<forall>p. user_prompt = Some p \<and> p \<noteq> [] \<longrightarrow>
      process_file_messages text user_prompt =
        [\<lparr>role = ''system'', content = system_prompt\<rparr>,
         \<lparr>role = ''user'',
          content = ''Please analyze the following text content:'' @ [CHR 0x0A, CHR 0x0A] @ text\<rparr>,
         \<lparr>role = ''user'', content = p\<rparr>])
   \<and> (length (process_file_messages text user_prompt) = 2
        \<longleftrightarrow> user_prompt = None \<or> user_prompt = Some [])
   \<and> (length (process_file_messages text user_prompt) = 3
        \<longleftrightarrow> (\<exists>p. user_prompt = Some p \<and> p \<noteq> []))
   \<and> process_file_content nw self text user_prompt =
        generate_response nw self (process_file_messages text user_prompt) []"
  by (cases user_prompt)
     (auto simp: process_file_messages_def truthy_opt_def process_file_content_def Let_def)

theorem process_file_content_messages_witness:
  "length (process_file_messages ''abc'' (Some [])) = 2
   \<and> length (process_file_messages ''abc'' None) = 2
   \<and> process_file_messages ''abc'' (Some ''hi'') =
        [\<lparr>role = ''system'', content = system_prompt\<rparr>,
         \<lparr>role = ''user'',
          content = ''Please analyze the following text content:'' @ [CHR 0x0A, CHR 0x0A] @ ''abc''\<rparr>,
         \<lparr>role = ''user'', content = ''hi''\<rparr>]"
  using process_file_content_messages [of "Some []" "''abc''"]
        process_file_content_messages [of "None" "''abc''"]
        process_file_content_messages [of "Some ''hi''" "''abc''"]
  by simp

subsection \<open>Construction of the client\<close>

text \<open>
  The validator of the configuration accepts exactly the three provider names that
  \<open>_create_provider\<close> knows.
\<close>

lemma validate_provider_iff:
  "validate_provider v = Inr v \<longleftrightarrow> v \<in> set [''openai'', ''anthropic'', ''custom'']"
  by (simp add: validate_provider_def)

text \<open>
  C7. Construction of \<open>LLMClient\<close> fails with \<open>ValueError("Unsupported provider: ...")\<close>,
  and holds no provider, when the provider name is none of \<open>openai\<close>, \<open>anthropic\<close>,
  \<open>custom\<close>; it fails with \<open>ValueError("base_url is required for custom provider")\<close> when
  the name is \<open>custom\<close> and the base URL is absent or empty; in every other case the client
  holds one provider, of the class the name selects, built from the configuration.
\<close>

theorem create_provider_cases:
  "(cfg_provider (llm c) \<notin> set [''openai'', ''anthropic'', ''custom''] \<longrightarrow>
      create_provider c = Inl (ValueError (''Unsupported provider: '' @ cfg_provider (llm c)))
      \<and> LLMClient_init c = Inl (ValueError (''Unsupported provider: '' @ cfg_provider (llm c))))
   \<and> (cfg_provider (llm c) = ''custom''
        \<and> (cfg_base_url (llm c) = None \<or> cfg_base_url (llm c) = Some []) \<longrightarrow>
      create_provider c = Inl (ValueError ''base_url is required for custom provider'')
      \<and> LLMClient_init c = Inl (ValueError ''base_url is required for custom provider''))
   \<and> (cfg_provider (llm c) = ''openai'' \<longrightarrow>
      LLMClient_init c =
        Inr \<lparr>client_config = c,
             client_provider =
               OpenAIProvider_init (cfg_api_key (llm c)) (cfg_model (llm c))
                 (cfg_base_url (llm c)) (config_kwargs c)\<rparr>
      \<and> (\<exists>k m kw b h. create_provider c = Inr (OpenAIProvider k m kw b h)))
   \<and> (cfg_provider (llm c) = ''anthropic'' \<longrightarrow>
      LLMClient_init c =
        Inr \<lparr>client_config = c,
             client_provider =
               AnthropicProvider_init (cfg_api_key (llm c)) (cfg_model (llm c)) (config_kwargs c)\<rparr>
      \<and> (\<exists>k m kw h. create_provider c = Inr (AnthropicProvider k m kw h)))
   \<and> (\<forall>u. cfg_provider (llm c) = ''custom'' \<and> cfg_base_url (llm c) = Some u \<and> u \<noteq> [] \<longrightarrow>
      LLMClient_init c =
        Inr \<lparr>client_config = c,
             client_provider =
               CustomProvider_init (cfg_api_key (llm c)) (cfg_model (llm c)) u (config_kwargs c)\<rparr>
      \<and> (\<exists>k m kw b h. create_provider c = Inr (CustomProvider k m kw b h)))"
  by (auto simp: create_provider_def LLMClient_init_def and_then_def truthy_opt_def Let_def
        config_kwargs_def OpenAIProvider_init_def AnthropicProvider_init_def
        CustomProvider_init_def split: option.splits)


text \<open>The three outcomes at concrete configurations.\<close>

theorem create_provider_cases_witness:
  "LLMClient_init (example_llm_config ''foo'' None) = Inl (ValueError ''Unsupported provider: foo'')
   \<and> LLMClient_init (example_llm_config ''custom'' None)
        = Inl (ValueError ''base_url is required for custom provider'')
   \<and> LLMClient_init (example_llm_config ''custom'' (Some ''''))
        = Inl (ValueError ''base_url is required for custom provider'')
   \<and> (\<exists>k m kw b h. create_provider (example_llm_config ''openai'' None)
          = Inr (OpenAIProvider k m kw b h))
   \<and> (\<exists>k m kw h. create_provider (example_llm_config ''anthropic'' None)
          = Inr (AnthropicProvider k m kw h))
   \<and> (\<exists>k m kw b h. create_provider (example_llm_config ''custom'' (Some ''http://localhost:8000/v1/''))
          = Inr (CustomProvider k m kw b h))"
  using create_provider_cases [of "example_llm_config ''foo'' None"]
        create_provider_cases [of "example_llm_config ''custom'' None"]
        create_provider_cases [of "example_llm_config ''custom'' (Some '''')"]
        create_provider_cases [of "example_llm_config ''openai'' None"]
        create_provider_cases [of "example_llm_config ''anthropic'' None"]
        create_provider_cases [of "example_llm_config ''custom'' (Some ''http://localhost:8000/v1/'')"]
  by (simp add: example_llm_config_def)

subsection \<open>The request of the Custom provider\<close>

text \<open>
  C9, as stated, fails: the body that \<open>CustomProvider.generate_response\<close> posts has no
  key \<open>stream\<close>, so its keys are not the five keys of the OpenAI body.
\<close>

theorem custom_payload_has_no_stream_key:
  "set (map fst (req_json (custom_request ''http://localhost:8000/v1'' [] ''model-1''
          [\<lparr>role = ''user'', content = ''hi''\<rparr>] [])))
     \<noteq> set [''model'', ''messages'', ''max_tokens'', ''temperature'', ''stream'']
   \<and> ''stream'' \<notin> set (map fst (req_json (custom_request ''http://localhost:8000/v1'' [] ''model-1''
          [\<lparr>role = ''user'', content = ''hi''\<rparr>] [])))"
proof -
  let ?keys = "map fst (req_json (custom_request ''http://localhost:8000/v1'' [] ''model-1''
          [\<lparr>role = ''user'', content = ''hi''\<rparr>] []))"
  have keys: "?keys = [''model'', ''messages'', ''max_tokens'', ''temperature'']"
    by (simp add: custom_request_def custom_payload_def)
  have out: "''stream'' \<notin> set ?keys"
    unfolding keys by simp
  have "''stream'' \<in> set [''model'', ''messages'', ''max_tokens'', ''temperature'', ''stream'']"
    by simp
  with out have neq: "set ?keys \<noteq> set [''model'', ''messages'', ''max_tokens'', ''temperature'', ''stream'']"
    by metis
  from neq out show ?thesis by (rule conjI)
qed

text \<open>
  C9, amended. For every message list and options, \<open>CustomProvider.generate_response\<close>
  posts once to \<open>base_url\<close> followed by \<open>/chat/completions\<close>, where \<open>base_url\<close> is the
  configured URL without trailing slashes, and the body has exactly the keys \<open>model\<close>,
  \<open>messages\<close>, \<open>max_tokens\<close>, \<open>temperature\<close>: it is the OpenAI body without its last
  entry \<open>stream\<close>.
\<close>

theorem custom_request_shape:
  "custom_generate_response post base_url headers model messages kwargs =
     and_then (post (custom_request base_url headers model messages kwargs))
       (read_choice_response model ''custom'')
   \<and> req_url (custom_request base_url headers model messages kwargs) = base_url @ ''/chat/completions''
   \<and> map fst (req_json (custom_request base_url headers model messages kwargs)) =
       [''model'', ''messages'', ''max_tokens'', ''temperature'']
   \<and> req_json (openai_request base_url headers model messages kwargs) =
       req_json (custom_request base_url headers model messages kwargs) @ [(''stream'', JBool False)]
   \<and> generate_response nw
        \<lparr>client_config = c, client_provider = CustomProvider_init key model url kw0\<rparr> messages kwargs =
       and_then
         (net_post nw (custom_request (rstrip_slash url)
            [(''Authorization'', JStr (''Bearer '' @ py_format_opt key)),
             (''Content-Type'', JStr ''application/json'')] model messages kwargs))
         (read_choice_response model ''custom'')"
  by (simp add: custom_generate_response_def custom_request_def custom_payload_def
        openai_request_def openai_payload_def generate_response_def CustomProvider_init_def)

subsection \<open>The payload of the Anthropic provider\<close>

text \<open>
  The loop over the messages keeps the content of the last system message and collects
  the contents of the user and assistant messages in order.
\<close>

lemma anthropic_convert_eq:
  "anthropic_convert msgs (s, us) =
     ((case filter (\<lambda>m. role m = ''system'') msgs of [] \<Rightarrow> s | x # xs \<Rightarrow> content (last (x # xs))),
      us @ map content (filter (\<lambda>m. role m = ''user'' \<or> role m = ''assistant'') msgs))"
  by (induction msgs arbitrary: s us) (auto split: list.splits)

text \<open>
  C3, as stated, fails: a system message with empty content gives a payload with no
  \<open>system\<close> field at all, and of two system messages only the last one's content is sent.
\<close>

theorem anthropic_payload_drops_empty_system:
  "map_of (anthropic_payload ''model-1''
       [\<lparr>role = ''system'', content = ''''\<rparr>, \<lparr>role = ''user'', content = ''A''\<rparr>] []) ''system'' = None
   \<and> map_of (anthropic_payload ''model-1''
       [\<lparr>role = ''system'', content = ''S1''\<rparr>, \<lparr>role = ''system'', content = ''S2''\<rparr>,
        \<lparr>role = ''user'', content = ''A''\<rparr>] []) ''system'' = Some (JStr ''S2'')"
  by (simp add: anthropic_payload_def)

text \<open>
  C3, amended. For every message list the payload has one user turn whose content is the
  contents of all user and assistant messages, in order, joined by two newlines; it has
  a top-level \<open>system\<close> field exactly when the last system message has non-empty
  content, and the field is then that content. For the messages system \<open>S\<close>, user \<open>A\<close>,
  user \<open>B\<close> the payload has \<open>system\<close> equal to \<open>S\<close> and one user message with content
  \<open>A\<close>, two newlines, \<open>B\<close>.
\<close>

theorem anthropic_payload_shape:
  "map_of (anthropic_payload model msgs kw) ''messages'' =
     Some (JArr [JObj [(''role'', JStr ''user''),
       (''content'', JStr (py_join [CHR 0x0A, CHR 0x0A]
          (map content (filter (\<lambda>m. role m = ''user'' \<or> role m = ''assistant'') msgs))))]])
   \<and> map_of (anthropic_payload model msgs kw) ''system'' =
       (case filter (\<lambda>m. role m = ''system'') msgs of
          [] \<Rightarrow> None
        | x # xs \<Rightarrow> if content (last (x # xs)) = [] then None
                    else Some (JStr (content (last (x # xs)))))
   \<and> anthropic_payload model
        [\<lparr>role = ''system'', content = ''S''\<rparr>, \<lparr>role = ''user'', content = ''A''\<rparr>,
         \<lparr>role = ''user'', content = ''B''\<rparr>] kw =
       [(''model'', JStr model),
        (''max_tokens'', kwargs_get kw ''max_tokens'' (JInt 1000)),
        (''temperature'', kwargs_get kw ''temperature'' (JFloat (7 / 10))),
        (''messages'', JArr [JObj [(''role'', JStr ''user''),
            (''content'', JStr (''A'' @ [CHR 0x0A, CHR 0x0A] @ ''B''))]]),
        (''system'', JStr ''S'')]"
  by (auto simp: anthropic_payload_def anthropic_convert_eq Let_def split: list.splits)

subsection \<open>Reading a provider's response\<close>

text \<open>
  Subscripting by a key succeeds exactly on an object that has the key, and every failure
  of a subscript is one of the three lookup exceptions.
\<close>

lemma json_at_Key:
  "json_at v (Key k # p) = (case py_getitem v k of Inl e \<Rightarrow> None | Inr x \<Rightarrow> json_at x p)"
  by (cases v) (auto split: option.splits)

lemma py_getitem_malformed: "py_getitem v k = Inl e \<Longrightarrow> malformed_response e"
  by (cases v) (auto split: option.splits)

lemma py_getitem0_malformed: "py_getitem0 v = Inl e \<Longrightarrow> malformed_response e"
  by (cases v) (auto split: list.splits)

lemma py_getitem_Inr: "py_getitem v k = Inr x \<Longrightarrow> \<exists>kvs. v = JObj kvs \<and> map_of kvs k = Some x"
  by (cases v) (auto split: option.splits)

lemma py_getitem0_Inr:
  "py_getitem0 v = Inr x \<Longrightarrow>
     (\<exists>xs. v = JArr (x # xs)) \<or> (\<exists>c s. v = JStr (c # s) \<and> x = JStr [c])"
  by (cases v) (auto split: list.splits)

text \<open>
  An OpenAI-shaped body is read into a response exactly when it has a value at
  \<open>choices[0].message.content\<close>.
\<close>

lemma read_choice_response_present:
  assumes "json_at data openai_content_path = Some c"
  shows "read_choice_response model tag data =
           Inr \<lparr>resp_content = c, resp_model = model,
                resp_usage = or_null (json_at data [Key ''usage'']),
                resp_finish_reason = or_null (json_at data [Key ''choices'', First, Key ''finish_reason'']),
                resp_provider = tag\<rparr>"
proof -
  from assms obtain kvs where d: "data = JObj kvs"
    by (cases data) (auto simp: openai_content_path_def)
  from assms d obtain cs where cs: "map_of kvs ''choices'' = Some cs"
    and p1: "json_at cs [First, Key ''message'', Key ''content''] = Some c"
    by (auto simp: openai_content_path_def split: option.splits)
  from p1 obtain ch rest where c1: "cs = JArr (ch # rest)"
    and p2: "json_at ch [Key ''message'', Key ''content''] = Some c"
    by (cases cs; cases "case cs of JArr xs \<Rightarrow> xs | _ \<Rightarrow> []") auto
  from p2 obtain ckvs where c2: "ch = JObj ckvs"
    by (cases ch) auto
  from p2 c2 obtain msg where m1: "map_of ckvs ''message'' = Some msg"
    and p3: "json_at msg [Key ''content''] = Some c"
    by (auto split: option.splits)
  from p3 obtain mkvs where m2: "msg = JObj mkvs" by (cases msg) auto
  from p3 m2 have m3: "map_of mkvs ''content'' = Some c" by (auto split: option.splits)
  show ?thesis
    by (simp add: read_choice_response_def and_then_def d cs c1 c2 m1 m2 m3 or_null_def
          split: option.splits)
qed

lemma read_choice_response_absent:
  assumes "json_at data openai_content_path = None"
  shows "\<exists>e. read_choice_response model tag data = Inl e \<and> malformed_response e"
proof (cases "py_getitem data ''choices''")
  case (Inl e)
  then show ?thesis
    by (auto simp: read_choice_response_def and_then_def dest: py_getitem_malformed)
next
  case (Inr cs)
  note cs = this
  then obtain kvs where d: "data = JObj kvs" "map_of kvs ''choices'' = Some cs"
    by (auto dest: py_getitem_Inr)
  show ?thesis
  proof (cases "py_getitem0 cs")
    case (Inl e)
    with cs show ?thesis
      by (auto simp: read_choice_response_def and_then_def dest: py_getitem0_malformed)
  next
    case (Inr ch)
    note ch = this
    show ?thesis
    proof (cases "py_getitem ch ''message''")
      case (Inl e)
      with cs ch show ?thesis
        by (auto simp: read_choice_response_def and_then_def dest: py_getitem_malformed)
    next
      case (Inr msg)
      note msg = this
      then obtain ckvs where c2: "ch = JObj ckvs" "map_of ckvs ''message'' = Some msg"
        by (auto dest: py_getitem_Inr)
      with ch obtain rest where c1: "cs = JArr (ch # rest)"
        by (auto dest: py_getitem0_Inr)
      show ?thesis
      proof (cases "py_getitem msg ''content''")
        case (Inl e)
        with cs ch msg show ?thesis
          by (auto simp: read_choice_response_def and_then_def dest: py_getitem_malformed)
      next
        case (Inr c)
        then obtain mkvs where "msg = JObj mkvs" "map_of mkvs ''content'' = Some c"
          by (auto dest: py_getitem_Inr)
        with d c1 c2 have "json_at data openai_content_path = Some c"
          by (simp add: openai_content_path_def)
        with assms show ?thesis by simp
      qed
    qed
  qed
qed

text \<open>The same for an Anthropic body and \<open>content[0].text\<close>.\<close>

lemma read_anthropic_response_present:
  assumes "json_at data anthropic_content_path = Some c"
  shows "read_anthropic_response model data =
           Inr \<lparr>resp_content = c, resp_model = model,
                resp_usage = or_null (json_at data [Key ''usage'']),
                resp_finish_reason = or_null (json_at data [Key ''stop_reason'']),
                resp_provider = ''anthropic''\<rparr>"
proof -
  from assms obtain kvs where d: "data = JObj kvs"
    by (cases data) (auto simp: anthropic_content_path_def)
  from assms d obtain bs where bs: "map_of kvs ''content'' = Some bs"
    and p1: "json_at bs [First, Key ''text''] = Some c"
    by (auto simp: anthropic_content_path_def split: option.splits)
  from p1 obtain b rest where b1: "bs = JArr (b # rest)"
    and p2: "json_at b [Key ''text''] = Some c"
    by (cases bs; cases "case bs of JArr xs \<Rightarrow> xs | _ \<Rightarrow> []") auto
  from p2 obtain bkvs where b2: "b = JObj bkvs"
    by (cases b) auto
  from p2 b2 have b3: "map_of bkvs ''text'' = Some c" by (auto split: option.splits)
  show ?thesis
    by (simp add: read_anthropic_response_def and_then_def d bs b1 b2 b3 or_null_def
          split: option.splits)
qed

lemma read_anthropic_response_absent:
  assumes "json_at data anthropic_content_path = None"
  shows "\<exists>e. read_anthropic_response model data = Inl e \<and> malformed_response e"
proof (cases "py_getitem data ''content''")
  case (Inl e)
  then show ?thesis
    by (auto simp: read_anthropic_response_def and_then_def dest: py_getitem_malformed)
next
  case (Inr bs)
  note bs = this
  then obtain kvs where d: "data = JObj kvs" "map_of kvs ''content'' = Some bs"
    by (auto dest: py_getitem_Inr)
  show ?thesis
  proof (cases "py_getitem0 bs")
    case (Inl e)
    with bs show ?thesis
      by (auto simp: read_anthropic_response_def and_then_def dest: py_getitem0_malformed)
  next
    case (Inr b)
    note b = this
    show ?thesis
    proof (cases "py_getitem b ''text''")
      case (Inl e)
      with bs b show ?thesis
        by (auto simp: read_anthropic_response_def and_then_def dest: py_getitem_malformed)
    next
      case (Inr c)
      then obtain bkvs where b2: "b = JObj bkvs" "map_of bkvs ''text'' = Some c"
        by (auto dest: py_getitem_Inr)
      with b obtain rest where "bs = JArr (b # rest)"
        by (auto dest: py_getitem0_Inr)
      with d b2 have "json_at data anthropic_content_path = Some c"
        by (simp add: anthropic_content_path_def)
      with assms show ?thesis by simp
    qed
  qed
qed

text \<open>A response that was returned is fully populated from the body.\<close>

lemma read_choice_response_Inr:
  "read_choice_response model tag data = Inr r \<Longrightarrow>
     json_at data openai_content_path = Some (resp_content r)
     \<and> resp_model r = model \<and> resp_provider r = tag
     \<and> resp_usage r = or_null (json_at data [Key ''usage''])
     \<and> resp_finish_reason r = or_null (json_at data [Key ''choices'', First, Key ''finish_reason''])"
proof (cases "json_at data openai_content_path")
  case None
  assume "read_choice_response model tag data = Inr r"
  with read_choice_response_absent [OF None, of model tag] show ?thesis by auto
next
  case (Some c)
  assume "read_choice_response model tag data = Inr r"
  with read_choice_response_present [OF Some, of model tag] Some show ?thesis by auto
qed

lemma read_anthropic_response_Inr:
  "read_anthropic_response model data = Inr r \<Longrightarrow>
     json_at data anthropic_content_path = Some (resp_content r)
     \<and> resp_model r = model \<and> resp_provider r = ''anthropic''
     \<and> resp_usage r = or_null (json_at data [Key ''usage''])
     \<and> resp_finish_reason r = or_null (json_at data [Key ''stop_reason''])"
proof (cases "json_at data anthropic_content_path")
  case None
  assume "read_anthropic_response model data = Inr r"
  with read_anthropic_response_absent [OF None, of model] show ?thesis by auto
next
  case (Some c)
  assume "read_anthropic_response model data = Inr r"
  with read_anthropic_response_present [OF Some, of model] Some show ?thesis by auto
qed

text \<open>When a sequence of two steps returns, and when it raises.\<close>

lemma and_then_Inr: "and_then x f = Inr y \<longleftrightarrow> (\<exists>v. x = Inr v \<and> f v = Inr y)"
  by (cases x) (auto simp: and_then_def)

lemma and_then_Inl: "and_then x f = Inl e \<longleftrightarrow> x = Inl e \<or> (\<exists>v. x = Inr v \<and> f v = Inl e)"
  by (cases x) (auto simp: and_then_def)

text \<open>
  C6. When the JSON body of the provider's answer has no value at the content path
  (\<open>choices[0].message.content\<close> for OpenAI and Custom, \<open>content[0].text\<close> for Anthropic),
  \<open>generate_response\<close> raises one of the lookup exceptions and returns no response; a
  response is returned only when the body has the content path, and it then carries that
  content, the model and the provider tag. A key missing from the object that should hold
  it raises \<open>KeyError\<close> with that key, the exception the code logs as an unexpected
  response format.
\<close>

theorem generate_response_malformed:
  "(post (openai_request base_url headers model messages kwargs) = Inr data
      \<and> json_at data openai_content_path = None \<longrightarrow>
        (\<exists>e. openai_generate_response post base_url headers model messages kwargs = Inl e
              \<and> malformed_response e))
   \<and> (post (custom_request base_url headers model messages kwargs) = Inr data
      \<and> json_at data openai_content_path = None \<longrightarrow>
        (\<exists>e. custom_generate_response post base_url headers model messages kwargs = Inl e
              \<and> malformed_response e))
   \<and> (post (anthropic_request headers model messages kwargs) = Inr data
      \<and> json_at data anthropic_content_path = None \<longrightarrow>
        (\<exists>e. anthropic_generate_response post headers model messages kwargs = Inl e
              \<and> malformed_response e))
   \<and> (openai_generate_response post base_url headers model messages kwargs = Inr r \<longrightarrow>
        (\<exists>body. post (openai_request base_url headers model messages kwargs) = Inr body
           \<and> json_at body openai_content_path = Some (resp_content r))
        \<and> resp_model r = model \<and> resp_provider r = ''openai'')
   \<and> (custom_generate_response post base_url headers model messages kwargs = Inr r \<longrightarrow>
        (\<exists>body. post (custom_request base_url headers model messages kwargs) = Inr body
           \<and> json_at body openai_content_path = Some (resp_content r))
        \<and> resp_model r = model \<and> resp_provider r = ''custom'')
   \<and> (anthropic_generate_response post headers model messages kwargs = Inr r \<longrightarrow>
        (\<exists>body. post (anthropic_request headers model messages kwargs) = Inr body
           \<and> json_at body anthropic_content_path = Some (resp_content r))
        \<and> resp_model r = model \<and> resp_provider r = ''anthropic'')
   \<and> (map_of kvs ''choices'' = None \<longrightarrow>
        read_choice_response model tag (JObj kvs) = Inl (KeyError ([CHR 0x27] @ ''choices'' @ [CHR 0x27])))
   \<and> (map_of kvs ''choices'' = Some (JArr (JObj ckvs # rest)) \<and> map_of ckvs ''message'' = None \<longrightarrow>
        read_choice_response model tag (JObj kvs) = Inl (KeyError ([CHR 0x27] @ ''message'' @ [CHR 0x27])))
   \<and> (map_of kvs ''choices'' = Some (JArr (JObj ckvs # rest))
        \<and> map_of ckvs ''message'' = Some (JObj mkvs) \<and> map_of mkvs ''content'' = None \<longrightarrow>
        read_choice_response model tag (JObj kvs) = Inl (KeyError ([CHR 0x27] @ ''content'' @ [CHR 0x27])))
   \<and> (map_of kvs ''content'' = None \<longrightarrow>
        read_anthropic_response model (JObj kvs) = Inl (KeyError ([CHR 0x27] @ ''content'' @ [CHR 0x27])))
   \<and> (map_of kvs ''content'' = Some (JArr (JObj ckvs # rest)) \<and> map_of ckvs ''text'' = None \<longrightarrow>
        read_anthropic_response model (JObj kvs) = Inl (KeyError ([CHR 0x27] @ ''text'' @ [CHR 0x27])))"
proof -
  have a1: "post (openai_request base_url headers model messages kwargs) = Inr data
      \<and> json_at data openai_content_path = None \<longrightarrow>
        (\<exists>e. openai_generate_response post base_url headers model messages kwargs = Inl e
              \<and> malformed_response e)"
    using read_choice_response_absent [of data model "''openai''"]
    by (auto simp: openai_generate_response_def and_then_def)
  have a2: "post (custom_request base_url headers model messages kwargs) = Inr data
      \<and> json_at data openai_content_path = None \<longrightarrow>
        (\<exists>e. custom_generate_response post base_url headers model messages kwargs = Inl e
              \<and> malformed_response e)"
    using read_choice_response_absent [of data model "''custom''"]
    by (auto simp: custom_generate_response_def and_then_def)
  have a3: "post (anthropic_request headers model messages kwargs) = Inr data
      \<and> json_at data anthropic_content_path = None \<longrightarrow>
        (\<exists>e. anthropic_generate_response post headers model messages kwargs = Inl e
              \<and> malformed_response e)"
    using read_anthropic_response_absent [of data model]
    by (auto simp: anthropic_generate_response_def and_then_def)
  have b1: "openai_generate_response post base_url headers model messages kwargs = Inr r \<longrightarrow>
        (\<exists>body. post (openai_request base_url headers model messages kwargs) = Inr body
           \<and> json_at body openai_content_path = Some (resp_content r))
        \<and> resp_model r = model \<and> resp_provider r = ''openai''"
    by (auto simp: openai_generate_response_def and_then_Inr dest: read_choice_response_Inr)
  have b2: "custom_generate_response post base_url headers model messages kwargs = Inr r \<longrightarrow>
        (\<exists>body. post (custom_request base_url headers model messages kwargs) = Inr body
           \<and> json_at body openai_content_path = Some (resp_content r))
        \<and> resp_model r = model \<and> resp_provider r = ''custom''"
    by (auto simp: custom_generate_response_def and_then_Inr dest: read_choice_response_Inr)
  have b3: "anthropic_generate_response post headers model messages kwargs = Inr r \<longrightarrow>
        (\<exists>body. post (anthropic_request headers model messages kwargs) = Inr body
           \<and> json_at body anthropic_content_path = Some (resp_content r))
        \<and> resp_model r = model \<and> resp_provider r = ''anthropic''"
    by (auto simp: anthropic_generate_response_def and_then_Inr dest: read_anthropic_response_Inr)
  have k1: "map_of kvs ''choices'' = None \<longrightarrow>
        read_choice_response model tag (JObj kvs) = Inl (KeyError ([CHR 0x27] @ ''choices'' @ [CHR 0x27]))"
    by (simp add: read_choice_response_def and_then_def)
  have k2: "map_of kvs ''choices'' = Some (JArr (JObj ckvs # rest)) \<and> map_of ckvs ''message'' = None \<longrightarrow>
        read_choice_response model tag (JObj kvs) = Inl (KeyError ([CHR 0x27] @ ''message'' @ [CHR 0x27]))"
    by (simp add: read_choice_response_def and_then_def)
  have k3: "map_of kvs ''choices'' = Some (JArr (JObj ckvs # rest))
        \<and> map_of ckvs ''message'' = Some (JObj mkvs) \<and> map_of mkvs ''content'' = None \<longrightarrow>
        read_choice_response model tag (JObj kvs) = Inl (KeyError ([CHR 0x27] @ ''content'' @ [CHR 0x27]))"
    by (simp add: read_choice_response_def and_then_def)
  have k4: "map_of kvs ''content'' = None \<longrightarrow>
        read_anthropic_response model (JObj kvs) = Inl (KeyError ([CHR 0x27] @ ''content'' @ [CHR 0x27]))"
    by (simp add: read_anthropic_response_def and_then_def)
  have k5: "map_of kvs ''content'' = Some (JArr (JObj ckvs # rest)) \<and> map_of ckvs ''text'' = None \<longrightarrow>
        read_anthropic_response model (JObj kvs) = Inl (KeyError ([CHR 0x27] @ ''text'' @ [CHR 0x27]))"
    by (simp add: read_anthropic_response_def and_then_def)
  from a1 a2 a3 b1 b2 b3 k1 k2 k3 k4 k5 show ?thesis by blast
qed



text \<open>Bodies without the content path, and bodies with it.\<close>

theorem generate_response_malformed_witness:
  "(\<exists>e. openai_generate_response (\<lambda>req. Inr (JObj [(''choices'', JArr [])]))
           ''https://api.openai.com/v1'' [] ''model-1'' [] [] = Inl e \<and> malformed_response e)
   \<and> (\<exists>e. custom_generate_response (\<lambda>req. Inr (JObj [(''error'', JStr ''overloaded'')]))
           ''http://localhost:8000/v1'' [] ''model-1'' [] [] = Inl e \<and> malformed_response e)
   \<and> (\<exists>e. anthropic_generate_response (\<lambda>req. Inr (JObj [(''content'', JArr [JObj []])]))
           [] ''model-1'' [] [] = Inl e \<and> malformed_response e)
   \<and> json_at good_openai_body openai_content_path = Some (JStr ''Hello world'')
   \<and> json_at good_anthropic_body anthropic_content_path = Some (JStr ''Hello world'')
   \<and> read_choice_response ''model-1'' ''openai'' (JObj [(''error'', JStr ''overloaded'')])
       = Inl (KeyError ([CHR 0x27] @ ''choices'' @ [CHR 0x27]))
   \<and> read_anthropic_response ''model-1'' (JObj [(''content'', JArr [JObj []])])
       = Inl (KeyError ([CHR 0x27] @ ''text'' @ [CHR 0x27]))"
  using
    generate_response_malformed [where post = "\<lambda>req. Inr (JObj [(''choices'', JArr [])])"
      and data = "JObj [(''choices'', JArr [])]" and base_url = "''https://api.openai.com/v1''"
      and headers = "[]" and model = "''model-1''" and messages = "[]" and kwargs = "[]"]
    generate_response_malformed [where post = "\<lambda>req. Inr (JObj [(''error'', JStr ''overloaded'')])"
      and data = "JObj [(''error'', JStr ''overloaded'')]" and base_url = "''http://localhost:8000/v1''"
      and headers = "[]" and model = "''model-1''" and messages = "[]" and kwargs = "[]"
      and kvs = "[(''error'', JStr ''overloaded'')]" and tag = "''openai''"]
    generate_response_malformed [where post = "\<lambda>req. Inr (JObj [(''content'', JArr [JObj []])])"
      and data = "JObj [(''content'', JArr [JObj []])]"
      and headers = "[]" and model = "''model-1''" and messages = "[]" and kwargs = "[]"
      and kvs = "[(''content'', JArr [JObj []])]" and ckvs = "[]" and rest = "[]"]
    generate_response_malformed [where post = "\<lambda>req. Inr good_openai_body"
      and base_url = "''https://api.openai.com/v1''"
      and headers = "[]" and model = "''model-1''" and messages = "[]" and kwargs = "[]"
      and r = "\<lparr>resp_content = JStr ''Hello world'', resp_model = ''model-1'',
                resp_usage = JObj [(''total_tokens'', JInt 7)],
                resp_finish_reason = JStr ''stop'', resp_provider = ''openai''\<rparr>"]
    generate_response_malformed [where post = "\<lambda>req. Inr good_anthropic_body"
      and headers = "[]" and model = "''model-1''" and messages = "[]" and kwargs = "[]"
      and r = "\<lparr>resp_content = JStr ''Hello world'', resp_model = ''model-1'',
                resp_usage = JNull,
                resp_finish_reason = JStr ''end_turn'', resp_provider = ''anthropic''\<rparr>"]
  by (simp add: openai_content_path_def anthropic_content_path_def good_openai_body_def
        good_anthropic_body_def openai_generate_response_def anthropic_generate_response_def
        read_choice_response_def read_anthropic_response_def and_then_def)

subsection \<open>Simulated streaming\<close>

text \<open>The words that \<open>str.split()\<close> produces are the whitespace-delimited tokens.\<close>

lemma ws_tokens_Nil: "ws_tokens [] = []"
  by (subst ws_tokens.simps) simp

lemma ws_tokens_space: "py_isspace c \<Longrightarrow> ws_tokens (c # cs) = ws_tokens cs"
  by (subst ws_tokens.simps, subst (2) ws_tokens.simps) simp

lemma ws_tokens_word:
  "\<not> py_isspace c \<Longrightarrow>
     ws_tokens (c # cs) =
       (c # takeWhile (\<lambda>x. \<not> py_isspace x) cs) # ws_tokens (dropWhile (\<lambda>x. \<not> py_isspace x) cs)"
  by (subst ws_tokens.simps) simp

lemma split_from_tokens:
  "split_from cur s =
     (if cur = [] then ws_tokens s
      else (cur @ takeWhile (\<lambda>x. \<not> py_isspace x) s)
             # ws_tokens (dropWhile (\<lambda>x. \<not> py_isspace x) s))"
proof (induction s arbitrary: cur)
  case Nil
  show ?case by (simp add: ws_tokens_Nil)
next
  case (Cons c cs)
  show ?case
  proof (cases "py_isspace c")
    case True
    then show ?thesis
      by (simp add: Cons.IH [of "[]"] ws_tokens_space)
  next
    case False
    then show ?thesis
      by (simp add: Cons.IH [of "cur @ [c]"] ws_tokens_word)
  qed
qed

lemma py_split_tokens: "py_split s = ws_tokens s"
  by (simp add: py_split_def split_from_tokens)

lemma isspace_space: "py_isspace CHR '' ''"
  by (simp add: py_isspace_def)

lemma split_hello: "py_split ''Hello world'' = [''Hello'', ''world'']"
  by (simp add: py_split_def py_isspace_def)


text \<open>
  C5. \<open>stream_response\<close> of the Anthropic and of the Custom provider first calls its
  own \<open>generate_response\<close>; when that returns a response with text content, the
  fragments are exactly the whitespace-delimited tokens of the content, in order, each
  followed by one space, and the sequence ends normally; when it raises, the exception
  leaves the generator before any fragment. The content \<open>Hello world\<close> gives the
  fragments \<open>Hello\<close> and \<open>world\<close>, each with its trailing space.
\<close>

theorem simulated_stream_tokens:
  "(anthropic_generate_response post headers model messages kwargs = Inr r
      \<and> resp_content r = JStr s \<longrightarrow>
        anthropic_stream_response post headers model messages kwargs =
          (map (\<lambda>word. JStr (word @ '' '')) (ws_tokens s), None))
   \<and> (custom_generate_response post base_url headers model messages kwargs = Inr r
      \<and> resp_content r = JStr s \<longrightarrow>
        custom_stream_response post base_url headers model messages kwargs =
          (map (\<lambda>word. JStr (word @ '' '')) (ws_tokens s), None))
   \<and> (anthropic_generate_response post headers model messages kwargs = Inl e \<longrightarrow>
        anthropic_stream_response post headers model messages kwargs = ([], Some e))
   \<and> (custom_generate_response post base_url headers model messages kwargs = Inl e \<longrightarrow>
        custom_stream_response post base_url headers model messages kwargs = ([], Some e))
   \<and> map (\<lambda>word. JStr (word @ '' '')) (ws_tokens ''Hello world'')
        = [JStr ''Hello '', JStr ''world '']"
proof -
  have "map (\<lambda>word. JStr (word @ '' '')) (ws_tokens ''Hello world'')
          = [JStr ''Hello '', JStr ''world '']"
    by (simp add: py_split_tokens [symmetric] py_split_def py_isspace_def)
  then show ?thesis
    by (simp add: anthropic_stream_response_def custom_stream_response_def stream_words_def
          py_split_tokens)
qed

text \<open>Both providers on a body holding \<open>Hello world\<close>, and on a failing request.\<close>

theorem simulated_stream_tokens_witness:
  "anthropic_stream_response (\<lambda>req. Inr good_anthropic_body) [] ''model-1'' [] []
     = ([JStr ''Hello '', JStr ''world ''], None)
   \<and> custom_stream_response (\<lambda>req. Inr good_openai_body) ''http://localhost:8000/v1'' []
        ''model-1'' [] []
     = ([JStr ''Hello '', JStr ''world ''], None)
   \<and> anthropic_stream_response (\<lambda>req. Inl (RequestException ''timed out'')) [] ''model-1'' [] []
     = ([], Some (RequestException ''timed out''))
   \<and> custom_stream_response (\<lambda>req. Inl (RequestException ''timed out''))
        ''http://localhost:8000/v1'' [] ''model-1'' [] []
     = ([], Some (RequestException ''timed out''))"
  using
    simulated_stream_tokens [where post = "\<lambda>req. Inr good_anthropic_body" and headers = "[]"
      and model = "''model-1''" and messages = "[]" and kwargs = "[]" and s = "''Hello world''"
      and r = "\<lparr>resp_content = JStr ''Hello world'', resp_model = ''model-1'',
                resp_usage = JNull,
                resp_finish_reason = JStr ''end_turn'', resp_provider = ''anthropic''\<rparr>"]
    simulated_stream_tokens [where post = "\<lambda>req. Inr good_openai_body" and headers = "[]"
      and base_url = "''http://localhost:8000/v1''"
      and model = "''model-1''" and messages = "[]" and kwargs = "[]" and s = "''Hello world''"
      and r = "\<lparr>resp_content = JStr ''Hello world'', resp_model = ''model-1'',
                resp_usage = JObj [(''total_tokens'', JInt 7)],
                resp_finish_reason = JStr ''stop'', resp_provider = ''custom''\<rparr>"]
    simulated_stream_tokens [where post = "\<lambda>req. Inl (RequestException ''timed out'')"
      and headers = "[]" and base_url = "''http://localhost:8000/v1''"
      and model = "''model-1''" and messages = "[]" and kwargs = "[]"
      and e = "RequestException ''timed out''"]
  by (simp add: good_openai_body_def good_anthropic_body_def
        custom_generate_response_def anthropic_generate_response_def
        read_choice_response_def read_anthropic_response_def and_then_def)

subsection \<open>OpenAI streaming\<close>

text \<open>A chunk with a value at \<open>choices[0].delta.content\<close> yields that value.\<close>

lemma delta_fragment_present:
  assumes "json_at j delta_content_path = Some v"
  shows "delta_fragment j = Inr (Some v)"
proof -
  from assms obtain kvs where d: "j = JObj kvs"
    by (cases j) (auto simp: delta_content_path_def)
  from assms d obtain cs where cs: "map_of kvs ''choices'' = Some cs"
    and p1: "json_at cs [First, Key ''delta'', Key ''content''] = Some v"
    by (auto simp: delta_content_path_def split: option.splits)
  from p1 obtain ch rest where c1: "cs = JArr (ch # rest)"
    and p2: "json_at ch [Key ''delta'', Key ''content''] = Some v"
    by (cases cs; cases "case cs of JArr xs \<Rightarrow> xs | _ \<Rightarrow> []") auto
  from p2 obtain ckvs where c2: "ch = JObj ckvs"
    by (cases ch) auto
  from p2 c2 obtain dl where m1: "map_of ckvs ''delta'' = Some dl"
    and p3: "json_at dl [Key ''content''] = Some v"
    by (auto split: option.splits)
  from p3 obtain dkvs where m2: "dl = JObj dkvs" by (cases dl) auto
  from p3 m2 have m3: "map_of dkvs ''content'' = Some v" by (auto split: option.splits)
  show ?thesis
    by (simp add: delta_fragment_def and_then_def d cs c1 c2 m1 m2 m3)
qed

lemma starts_with_append: "starts_with xs (xs @ ys)"
  by (induction xs) auto

text \<open>
  C4. In the loop of the OpenAI \<open>stream_response\<close> over the lines of the event stream,
  for whatever follows: a line with the prefix \<open>data: \<close> whose payload is JSON with a
  value at \<open>choices[0].delta.content\<close> yields exactly that value and the loop goes on; a
  line whose payload is not JSON is skipped and the loop goes on; a line whose payload is
  the terminator \<open>[DONE]\<close> ends the sequence normally, whatever comes after. The two
  lines of the example, the chunk carrying \<open>Hi\<close> and the terminator, give exactly the
  fragment \<open>Hi\<close> and then the end. \<open>stream_response\<close> runs this loop over the lines
  the server sends.
\<close>

theorem sse_stream_fragments:
  "(raw \<noteq> [] \<and> decode raw = Some (''data: '' @ d) \<and> py_strip d \<noteq> ''[DONE]''
      \<and> loads d = Some j \<and> json_at j delta_content_path = Some v \<longrightarrow>
        openai_stream_lines decode loads (raw # rest) fin =
          (v # fst (openai_stream_lines decode loads rest fin),
           snd (openai_stream_lines decode loads rest fin)))
   \<and> (raw \<noteq> [] \<and> decode raw = Some (''data: '' @ d) \<and> py_strip d \<noteq> ''[DONE]''
      \<and> loads d = None \<longrightarrow>
        openai_stream_lines decode loads (raw # rest) fin =
          openai_stream_lines decode loads rest fin)
   \<and> (raw \<noteq> [] \<and> decode raw = Some (''data: '' @ d) \<and> py_strip d = ''[DONE]'' \<longrightarrow>
        openai_stream_lines decode loads (raw # rest) fin = ([], None))
   \<and> (decode sse_hi_line = Some sse_hi_line \<and> decode sse_done_line = Some sse_done_line
      \<and> loads (drop 6 sse_hi_line) = Some hi_chunk \<longrightarrow>
        openai_stream_lines decode loads [sse_hi_line, sse_done_line] fin = ([JStr ''Hi''], None))
   \<and> (post_stream (openai_stream_request base_url headers model messages kwargs) = Inr (lines, fin)
      \<longrightarrow>
        openai_stream_response post_stream decode loads base_url headers model messages kwargs =
          openai_stream_lines decode loads lines fin)"
proof -
  have dr: "drop 6 (''data: '' @ d) = d" by simp
  have sw: "starts_with ''data: '' (''data: '' @ d)" by (rule starts_with_append)
  have c1: "raw \<noteq> [] \<and> decode raw = Some (''data: '' @ d) \<and> py_strip d \<noteq> ''[DONE]''
      \<and> loads d = Some j \<and> json_at j delta_content_path = Some v \<longrightarrow>
        openai_stream_lines decode loads (raw # rest) fin =
          (v # fst (openai_stream_lines decode loads rest fin),
           snd (openai_stream_lines decode loads rest fin))"
    using sw dr by (auto simp: openai_stream_line_def Let_def dest: delta_fragment_present)
  have c2: "raw \<noteq> [] \<and> decode raw = Some (''data: '' @ d) \<and> py_strip d \<noteq> ''[DONE]''
      \<and> loads d = None \<longrightarrow>
        openai_stream_lines decode loads (raw # rest) fin =
          openai_stream_lines decode loads rest fin"
    using sw dr by (auto simp: openai_stream_line_def Let_def)
  have c3: "raw \<noteq> [] \<and> decode raw = Some (''data: '' @ d) \<and> py_strip d = ''[DONE]'' \<longrightarrow>
        openai_stream_lines decode loads (raw # rest) fin = ([], None)"
    using sw dr by (auto simp: openai_stream_line_def Let_def)
  have hi: "json_at hi_chunk delta_content_path = Some (JStr ''Hi'')"
    by (simp add: hi_chunk_def delta_content_path_def)
  have strip_done: "py_strip (drop 6 sse_done_line) = ''[DONE]''"
    by (simp add: sse_done_line_def py_strip_def py_isspace_def)
  have strip_hi: "py_strip (drop 6 sse_hi_line) \<noteq> ''[DONE]''"
    by (simp add: sse_hi_line_def py_strip_def py_isspace_def)
  have sw_hi: "starts_with ''data: '' sse_hi_line" by (simp add: sse_hi_line_def)
  have sw_done: "starts_with ''data: '' sse_done_line" by (simp add: sse_done_line_def)
  have ne: "sse_hi_line \<noteq> []" "sse_done_line \<noteq> []"
    by (simp_all add: sse_hi_line_def sse_done_line_def)
  have c4: "decode sse_hi_line = Some sse_hi_line \<and> decode sse_done_line = Some sse_done_line
      \<and> loads (drop 6 sse_hi_line) = Some hi_chunk \<longrightarrow>
        openai_stream_lines decode loads [sse_hi_line, sse_done_line] fin = ([JStr ''Hi''], None)"
    using delta_fragment_present [OF hi] strip_done strip_hi sw_hi sw_done ne
    by (simp add: openai_stream_line_def Let_def)
  have c5: "post_stream (openai_stream_request base_url headers model messages kwargs) = Inr (lines, fin)
      \<longrightarrow>
        openai_stream_response post_stream decode loads base_url headers model messages kwargs =
          openai_stream_lines decode loads lines fin"
    by (simp add: openai_stream_response_def)
  from c1 c2 c3 c4 c5 show ?thesis by blast
qed

text \<open>The example stream, a malformed line before and after a chunk, and a terminator.\<close>

theorem sse_stream_fragments_witness:
  "openai_stream_lines ascii_decode example_loads [sse_hi_line, sse_done_line] None
     = ([JStr ''Hi''], None)
   \<and> openai_stream_lines ascii_decode example_loads [''data: {broken'', sse_hi_line] None
     = openai_stream_lines ascii_decode example_loads [sse_hi_line] None
   \<and> openai_stream_lines ascii_decode example_loads [sse_hi_line, ''data: {broken''] None
     = (JStr ''Hi'' # fst (openai_stream_lines ascii_decode example_loads [''data: {broken''] None),
        snd (openai_stream_lines ascii_decode example_loads [''data: {broken''] None))
   \<and> openai_stream_lines ascii_decode example_loads [''data:  [DONE] '', sse_hi_line]
        (Some (RequestException ''connection reset'')) = ([], None)
   \<and> openai_stream_response (\<lambda>req. Inr ([sse_hi_line, sse_done_line], None))
        ascii_decode example_loads ''https://api.openai.com/v1'' [] ''model-1'' [] []
     = openai_stream_lines ascii_decode example_loads [sse_hi_line, sse_done_line] None"
  using
    sse_stream_fragments [where decode = ascii_decode and loads = example_loads and fin = None]
    sse_stream_fragments [where decode = ascii_decode and loads = example_loads and fin = None
      and raw = "''data: {broken''" and d = "''{broken''" and rest = "[sse_hi_line]"]
    sse_stream_fragments [where decode = ascii_decode and loads = example_loads and fin = None
      and raw = sse_hi_line and d = "drop 6 sse_hi_line" and rest = "[''data: {broken'']"
      and j = hi_chunk and v = "JStr ''Hi''"]
    sse_stream_fragments [where decode = ascii_decode and loads = example_loads
      and fin = "Some (RequestException ''connection reset'')"
      and raw = "''data:  [DONE] ''" and d = "'' [DONE] ''" and rest = "[sse_hi_line]"]
    sse_stream_fragments [where decode = ascii_decode and loads = example_loads and fin = None
      and post_stream = "\<lambda>req. Inr ([sse_hi_line, sse_done_line], None)"
      and lines = "[sse_hi_line, sse_done_line]"
      and base_url = "''https://api.openai.com/v1''" and headers = "[]" and model = "''model-1''"
      and messages = "[]" and kwargs = "[]"]
  by (simp add: ascii_decode_def example_loads_def sse_hi_line_def sse_done_line_def
        hi_chunk_def delta_content_path_def py_strip_def py_isspace_def)

subsection \<open>Processing one file\<close>

text \<open>The example world, evaluated: the agent, the three reads, the two requests.\<close>

lemma example_agent_init: "AIAgent_init (example_llm_config ''openai'' None) = Inr example_agent"
  by (simp add: AIAgent_init_def example_agent_def example_llm_config_def validate_api_key_def
        truthy_opt_def and_then_def LLMClient_init_def create_provider_def config_kwargs_def Let_def)

lemma read_a: "read_file example_fs (file_reader example_agent) ''input/a.txt'' =
   Inr (Some \<lparr>fc_file_path = ''input/a.txt'', fc_content = ''alpha'', fc_file_size = 5, fc_encoding = ''utf-8''\<rparr>)"
  by (simp add: read_file_def example_fs_def example_agent_def FileReader_init_def)

lemma read_b: "read_file example_fs (file_reader example_agent) ''input/b.txt'' =
   Inr (Some \<lparr>fc_file_path = ''input/b.txt'', fc_content = ''beta'', fc_file_size = 4, fc_encoding = ''utf-8''\<rparr>)"
  by (simp add: read_file_def example_fs_def example_agent_def FileReader_init_def)

lemma read_missing: "read_file example_fs (file_reader example_agent) ''input/missing.txt'' = Inr None"
  by (simp add: read_file_def example_fs_def example_agent_def FileReader_init_def)

lemma llm_a: "process_file_content (w_net example_world) (llm_client example_agent) ''alpha'' None
   = Inr good_openai_response"
  by (simp add: process_file_content_def generate_response_def example_agent_def
        OpenAIProvider_init_def openai_generate_response_def openai_request_def example_world_def
        example_post_def openai_payload_def process_file_messages_def truthy_opt_def Let_def
        and_then_def good_openai_body_def read_choice_response_def good_openai_response_def
        message_json_def)

lemma llm_b: "process_file_content (w_net example_world) (llm_client example_agent) ''beta'' None
   = Inl (RequestException ''timed out'')"
  by (simp add: process_file_content_def generate_response_def example_agent_def
        OpenAIProvider_init_def openai_generate_response_def openai_request_def example_world_def
        example_post_def and_then_def)


lemma example_world_fs: "w_fs example_world = example_fs"
  by (simp add: example_world_def)

text \<open>
  \<open>process_single_file\<close> always returns, and a result of its \<open>try\<close> block without a
  response is the one for a failed read.
\<close>

lemma process_single_file_returns:
  "\<exists>r. process_single_file w self path user_prompt = Inr r"
  by (cases "process_single_file_try w self path user_prompt")
     (simp_all add: process_single_file_def)

lemma process_single_file_try_invariant:
  "process_single_file_try w self path user_prompt = Inr r \<Longrightarrow>
     (success r \<longleftrightarrow> llm_response r \<noteq> None)
     \<and> (llm_response r = None \<longrightarrow> error_message r = Some ''Failed to read file'')"
  by (auto simp: process_single_file_try_def and_then_def Let_def
        split: sum.splits option.splits)

lemma process_single_file_invariant:
  assumes "process_single_file w self path user_prompt = Inr r"
  shows "(success r \<longleftrightarrow> llm_response r \<noteq> None)
         \<and> (llm_response r = None \<longrightarrow> (\<exists>m. error_message r = Some m \<and> m \<noteq> []))"
proof (cases "process_single_file_try w self path user_prompt")
  case (Inl e)
  with assms show ?thesis by (auto simp: process_single_file_def)
next
  case (Inr r')
  with assms have "r' = r" by (simp add: process_single_file_def)
  with Inr process_single_file_try_invariant [of w self path user_prompt r]
  show ?thesis by auto
qed

text \<open>
  C1. For every file path and optional prompt, in every world, \<open>process_single_file\<close>
  returns a result and raises nothing; in the result \<open>success\<close> is true exactly when
  \<open>llm_response\<close> is present, and a result without a response has a non-empty
  \<open>error_message\<close>: \<open>Failed to read file\<close> when \<open>read_file\<close> answered \<open>None\<close>, and
  \<open>Error processing\<close>, the path and the text of the exception when the read or the
  call of the provider raised. When both steps succeed the result holds the response and
  the content read.
\<close>

theorem process_single_file_total:
  "(\<exists>r. process_single_file w self path user_prompt = Inr r
        \<and> (success r \<longleftrightarrow> llm_response r \<noteq> None)
        \<and> (llm_response r = None \<longrightarrow> (\<exists>m. error_message r = Some m \<and> m \<noteq> [])))
   \<and> (read_file (w_fs w) (file_reader self) path = Inr None \<longrightarrow>
        (\<exists>r. process_single_file w self path user_prompt = Inr r \<and> \<not> success r
           \<and> llm_response r = None \<and> error_message r = Some ''Failed to read file''))
   \<and> (\<forall>e. read_file (w_fs w) (file_reader self) path = Inl e \<longrightarrow>
        (\<exists>r. process_single_file w self path user_prompt = Inr r \<and> \<not> success r
           \<and> llm_response r = None
           \<and> error_message r = Some (''Error processing '' @ path @ '': '' @ py_str_exn e)))
   \<and> (\<forall>fc e. read_file (w_fs w) (file_reader self) path = Inr (Some fc)
          \<and> process_file_content (w_net w) (llm_client self) (fc_content fc) user_prompt = Inl e
        \<longrightarrow>
        (\<exists>r. process_single_file w self path user_prompt = Inr r \<and> \<not> success r
           \<and> llm_response r = None
           \<and> error_message r = Some (''Error processing '' @ path @ '': '' @ py_str_exn e)))
   \<and> (\<forall>fc response. read_file (w_fs w) (file_reader self) path = Inr (Some fc)
          \<and> process_file_content (w_net w) (llm_client self) (fc_content fc) user_prompt
              = Inr response
        \<longrightarrow>
        (\<exists>r. process_single_file w self path user_prompt = Inr r \<and> success r
           \<and> llm_response r = Some response \<and> file_content r = fc \<and> error_message r = None))"
proof -
  obtain r where r: "process_single_file w self path user_prompt = Inr r"
    using process_single_file_returns by blast
  have c1: "\<exists>r. process_single_file w self path user_prompt = Inr r
        \<and> (success r \<longleftrightarrow> llm_response r \<noteq> None)
        \<and> (llm_response r = None \<longrightarrow> (\<exists>m. error_message r = Some m \<and> m \<noteq> []))"
    using r process_single_file_invariant [OF r] by (intro exI [of _ r]) simp
  have c2: "read_file (w_fs w) (file_reader self) path = Inr None \<longrightarrow>
        (\<exists>r. process_single_file w self path user_prompt = Inr r \<and> \<not> success r
           \<and> llm_response r = None \<and> error_message r = Some ''Failed to read file'')"
    by (simp add: process_single_file_def process_single_file_try_def and_then_def Let_def)
  have c3: "\<forall>e. read_file (w_fs w) (file_reader self) path = Inl e \<longrightarrow>
        (\<exists>r. process_single_file w self path user_prompt = Inr r \<and> \<not> success r
           \<and> llm_response r = None
           \<and> error_message r = Some (''Error processing '' @ path @ '': '' @ py_str_exn e))"
    by (simp add: process_single_file_def process_single_file_try_def and_then_def Let_def)
  have c4: "\<forall>fc e. read_file (w_fs w) (file_reader self) path = Inr (Some fc)
          \<and> process_file_content (w_net w) (llm_client self) (fc_content fc) user_prompt = Inl e
        \<longrightarrow>
        (\<exists>r. process_single_file w self path user_prompt = Inr r \<and> \<not> success r
           \<and> llm_response r = None
           \<and> error_message r = Some (''Error processing '' @ path @ '': '' @ py_str_exn e))"
    by (simp add: process_single_file_def process_single_file_try_def and_then_def Let_def)
  have c5: "\<forall>fc response. read_file (w_fs w) (file_reader self) path = Inr (Some fc)
          \<and> process_file_content (w_net w) (llm_client self) (fc_content fc) user_prompt
              = Inr response
        \<longrightarrow>
        (\<exists>r. process_single_file w self path user_prompt = Inr r \<and> success r
           \<and> llm_response r = Some response \<and> file_content r = fc \<and> error_message r = None)"
    by (simp add: process_single_file_def process_single_file_try_def and_then_def Let_def)
  from c1 c2 c3 c4 c5 show ?thesis by blast
qed

text \<open>A missing file, a provider that times out, and a successful run.\<close>

theorem process_single_file_total_witness:
  "(\<exists>r. process_single_file example_world example_agent ''input/missing.txt'' None = Inr r
       \<and> \<not> success r \<and> llm_response r = None \<and> error_message r = Some ''Failed to read file'')
   \<and> (\<exists>r. process_single_file example_world example_agent ''input/b.txt'' None = Inr r
       \<and> \<not> success r \<and> llm_response r = None
       \<and> error_message r = Some ''Error processing input/b.txt: timed out'')
   \<and> (\<exists>r. process_single_file example_world example_agent ''input/a.txt'' None = Inr r
       \<and> success r \<and> llm_response r = Some good_openai_response \<and> error_message r = None)"
  using
    process_single_file_total [of example_world example_agent "''input/missing.txt''" None]
    process_single_file_total [of example_world example_agent "''input/b.txt''" None]
    process_single_file_total [of example_world example_agent "''input/a.txt''" None]
    read_missing read_a read_b llm_a llm_b
  by (auto simp add: example_world_fs)

subsection \<open>Streaming one file\<close>

text \<open>
  The streaming variant builds the same conversation as \<open>process_file_content\<close>, and its
  generator always ends normally.
\<close>

lemma stream_try_messages:
  "read_file (w_fs w) (file_reader self) path = Inr (Some fc) \<Longrightarrow>
     stream_file_processing_try w self path user_prompt =
       stream_response (w_net w) (llm_client self)
         (process_file_messages (fc_content fc) user_prompt) []"
  by (simp add: stream_file_processing_try_def process_file_messages_def Let_def)

lemma stream_file_processing_ends: "snd (stream_file_processing w self path user_prompt) = None"
  by (cases "stream_file_processing_try w self path user_prompt")
     (auto simp: stream_file_processing_def split: option.splits)

text \<open>
  C8, as stated, fails where it says that a failed read yields the fragment
  \<open>Error: Failed to read file\<close>: a read that fails by an exception leaving \<open>read_file\<close>
  yields \<open>Error: \<close> with the text of that exception instead.
\<close>

theorem stream_read_exception_fragment:
  "read_file (w_fs perm_world) (file_reader example_agent) ''input/a.txt''
     = Inl (OSError ''Permission denied'')
   \<and> stream_file_processing perm_world example_agent ''input/a.txt'' None
     = ([JStr ''Error: Permission denied''], None)
   \<and> stream_file_processing perm_world example_agent ''input/a.txt'' None
     \<noteq> ([JStr ''Error: Failed to read file''], None)"
proof -
  have rd: "read_file (w_fs perm_world) (file_reader example_agent) ''input/a.txt''
     = Inl (OSError ''Permission denied'')"
    by (simp add: perm_world_def perm_fs_def example_fs_def read_file_def example_agent_def
          FileReader_init_def)
  then have sf: "stream_file_processing perm_world example_agent ''input/a.txt'' None
     = ([JStr ''Error: Permission denied''], None)"
    by (simp add: stream_file_processing_def stream_file_processing_try_def)
  from rd sf show ?thesis by simp
qed

text \<open>
  C8, amended. For every file path and optional prompt, in every world, the generator
  \<open>stream_file_processing\<close> ends normally and raises nothing. When \<open>read_file\<close> answers
  \<open>None\<close>, the only fragment is \<open>Error: Failed to read file\<close>. When an exception
  leaves \<open>read_file\<close>, the only fragment is \<open>Error: \<close> with the text of the exception.
  When the provider's stream raises, at the call or after some fragments, the fragments
  already produced are followed by one fragment \<open>Error: \<close> with the text of the
  exception, which ends the sequence. Otherwise the fragments are the provider's.
\<close>

theorem stream_file_processing_catches:
  "snd (stream_file_processing w self path user_prompt) = None
   \<and> (read_file (w_fs w) (file_reader self) path = Inr None \<longrightarrow>
        stream_file_processing w self path user_prompt
          = ([JStr ''Error: Failed to read file''], None))
   \<and> (\<forall>e. read_file (w_fs w) (file_reader self) path = Inl e \<longrightarrow>
        stream_file_processing w self path user_prompt
          = ([JStr (''Error: '' @ py_str_exn e)], None))
   \<and> (\<forall>fc chunks e. read_file (w_fs w) (file_reader self) path = Inr (Some fc)
          \<and> stream_response (w_net w) (llm_client self)
                (process_file_messages (fc_content fc) user_prompt) [] = (chunks, Some e) \<longrightarrow>
        stream_file_processing w self path user_prompt
          = (chunks @ [JStr (''Error: '' @ py_str_exn e)], None))
   \<and> (\<forall>fc chunks. read_file (w_fs w) (file_reader self) path = Inr (Some fc)
          \<and> stream_response (w_net w) (llm_client self)
                (process_file_messages (fc_content fc) user_prompt) [] = (chunks, None) \<longrightarrow>
        stream_file_processing w self path user_prompt = (chunks, None))"
proof -
  have c2: "read_file (w_fs w) (file_reader self) path = Inr None \<longrightarrow>
        stream_file_processing w self path user_prompt
          = ([JStr ''Error: Failed to read file''], None)"
    by (simp add: stream_file_processing_def stream_file_processing_try_def)
  have c3: "\<forall>e. read_file (w_fs w) (file_reader self) path = Inl e \<longrightarrow>
        stream_file_processing w self path user_prompt
          = ([JStr (''Error: '' @ py_str_exn e)], None)"
    by (simp add: stream_file_processing_def stream_file_processing_try_def)
  have c4: "\<forall>fc chunks e. read_file (w_fs w) (file_reader self) path = Inr (Some fc)
          \<and> stream_response (w_net w) (llm_client self)
                (process_file_messages (fc_content fc) user_prompt) [] = (chunks, Some e) \<longrightarrow>
        stream_file_processing w self path user_prompt
          = (chunks @ [JStr (''Error: '' @ py_str_exn e)], None)"
    by (auto simp: stream_file_processing_def stream_try_messages)
  have c5: "\<forall>fc chunks. read_file (w_fs w) (file_reader self) path = Inr (Some fc)
          \<and> stream_response (w_net w) (llm_client self)
                (process_file_messages (fc_content fc) user_prompt) [] = (chunks, None) \<longrightarrow>
        stream_file_processing w self path user_prompt = (chunks, None)"
    by (auto simp: stream_file_processing_def stream_try_messages)
  from stream_file_processing_ends [of w self path user_prompt] c2 c3 c4 c5
  show ?thesis by blast
qed

text \<open>A missing file, and a stream that breaks after its first chunk.\<close>

lemma stream_a:
  "stream_response (w_net example_world) (llm_client example_agent)
     (process_file_messages ''alpha'' None) []
   = ([JStr ''Hi''], Some (RequestException ''connection reset''))"
  by (simp add: stream_response_def example_agent_def OpenAIProvider_init_def
        openai_stream_response_def example_world_def openai_stream_line_def Let_def
        ascii_decode_def example_loads_def sse_hi_line_def hi_chunk_def delta_fragment_def
        and_then_def py_strip_def py_isspace_def)

theorem stream_file_processing_catches_witness:
  "stream_file_processing example_world example_agent ''input/missing.txt'' None
     = ([JStr ''Error: Failed to read file''], None)
   \<and> stream_file_processing example_world example_agent ''input/a.txt'' None
     = ([JStr ''Hi'', JStr ''Error: connection reset''], None)"
  using
    stream_file_processing_catches [of example_world example_agent "''input/missing.txt''" None]
    stream_file_processing_catches [of example_world example_agent "''input/a.txt''" None]
    read_missing read_a stream_a
  by (auto simp add: example_world_fs)

subsection \<open>The batch summary\<close>

text \<open>
  A result without a response makes \<open>to_dict\<close> raise, and with it the comprehension over
  the results and \<open>summarize\<close>.
\<close>

lemma to_dicts_failure:
  "r \<in> set rs \<Longrightarrow> llm_response r = None \<Longrightarrow> \<exists>e. to_dicts rs = Inl e"
proof (induction rs)
  case Nil
  then show ?case by simp
next
  case (Cons x xs)
  show ?case
  proof (cases "to_dict x")
    case (Inl e)
    then show ?thesis by (simp add: and_then_def)
  next
    case (Inr d)
    then have "llm_response x \<noteq> None"
      by (auto simp: to_dict_def and_then_def split: option.splits)
    with Cons.prems have "r \<in> set xs" by auto
    with Cons.IH Cons.prems obtain e where "to_dicts xs = Inl e" by blast
    with Inr show ?thesis by (simp add: and_then_def)
  qed
qed

lemma summarize_failure:
  assumes "r \<in> set rs" and "llm_response r = None"
  shows "\<exists>e. summarize rs = Inl e"
proof -
  from to_dicts_failure [OF assms] obtain e where "to_dicts rs = Inl e" ..
  then show ?thesis
    by (cases "sum_tokens (filter success rs) (JInt 0)")
       (simp_all add: summarize_def and_then_def Let_def)
qed

text \<open>
  When a summary is returned, its counts are those of the results: all of them, the
  failed ones, and the rest.
\<close>

lemma summarize_counts:
  assumes "summarize rs = Inr s"
  shows "total_files s = length rs
         \<and> failed s = length (filter (\<lambda>r. \<not> success r) rs)
         \<and> successful s = length rs - failed s
         \<and> errors s = map (\<lambda>r. the (error_message r))
              (filter (\<lambda>r. truthy_opt (error_message r)) (filter (\<lambda>r. \<not> success r) rs))"
proof -
  have "length (filter success rs) = length rs - length (filter (\<lambda>r. \<not> success r) rs)"
    using sum_length_filter_compl [of success rs] by simp
  with assms show ?thesis
    by (auto simp: summarize_def and_then_def Let_def split: sum.splits)
qed

text \<open>
  Every result of a batch has a response exactly when it is successful, so a summary
  that is returned never reports a failed file.
\<close>

lemma process_each_invariant:
  "process_each w self user_prompt fcs = Inr rs \<Longrightarrow> r \<in> set rs \<Longrightarrow>
     (success r \<longleftrightarrow> llm_response r \<noteq> None)"
proof (induction fcs arbitrary: rs)
  case Nil
  then show ?case by simp
next
  case (Cons fc fcs)
  from Cons.prems(1) obtain x xs where
    x: "process_single_file w self (fc_file_path fc) user_prompt = Inr x"
    and xs: "process_each w self user_prompt fcs = Inr xs" and rs: "rs = x # xs"
    by (auto simp: and_then_Inr)
  show ?case
  proof (cases "r = x")
    case True
    with process_single_file_invariant [OF x] show ?thesis by simp
  next
    case False
    with Cons.prems(2) rs have "r \<in> set xs" by simp
    with Cons.IH [OF xs] show ?thesis .
  qed
qed

lemma batch_never_reports_failure:
  assumes "batch_process_with_summary w self user_prompt = Inr s"
  shows "failed s = 0 \<and> errors s = [] \<and> successful s = total_files s"
proof -
  from assms obtain rs where rs: "process_all_files w self user_prompt = Inr rs"
    and s: "summarize rs = Inr s"
    by (auto simp: batch_process_with_summary_def and_then_Inr)
  from rs obtain fcs where pe: "process_each w self user_prompt fcs = Inr rs"
    by (auto simp: process_all_files_def and_then_Inr)
  have all: "success r" if "r \<in> set rs" for r
  proof -
    have "llm_response r \<noteq> None"
      using summarize_failure [OF that, of] s by auto
    with process_each_invariant [OF pe that] show ?thesis by simp
  qed
  then have "filter (\<lambda>r. \<not> success r) rs = []"
    by (simp add: filter_empty_conv)
  with summarize_counts [OF s] show ?thesis by simp
qed


text \<open>The batch over the example world, step by step.\<close>

lemma example_scan:
  "scan_directory example_fs (file_reader example_agent) = [''input/a.txt'', ''input/b.txt'']"
  by (simp add: scan_directory_def example_fs_def example_agent_def FileReader_init_def)

lemma example_files_summary:
  "get_files_summary example_fs (file_reader example_agent) =
     Inr \<lparr>fsum_total_files = 2, fsum_successful_reads = 2, fsum_total_size_bytes = 9\<rparr>"
proof -
  have "fs_stat example_fs ''input/a.txt'' = Inr 5" "fs_stat example_fs ''input/b.txt'' = Inr 4"
    by (simp_all add: example_fs_def)
  then show ?thesis
    by (simp add: get_files_summary_def example_scan read_a read_b and_then_def)
qed

lemma example_read_all:
  "read_all_files example_fs (file_reader example_agent) = Inr [content_a, content_b]"
  by (simp add: read_all_files_def example_scan read_a read_b and_then_def content_a_def
        content_b_def)

lemma example_single_a:
  "process_single_file example_world example_agent ''input/a.txt'' None = Inr result_a"
  using read_a llm_a
  by (simp add: process_single_file_def process_single_file_try_def example_world_fs and_then_def
        Let_def result_a_def content_a_def)
     (simp add: example_world_def)

lemma example_single_b:
  "process_single_file example_world example_agent ''input/b.txt'' None = Inr result_b"
  using read_b llm_b
  by (simp add: process_single_file_def process_single_file_try_def example_world_fs and_then_def
        Let_def result_b_def)
     (simp add: example_world_def)

lemma example_process_all:
  "process_all_files example_world example_agent None = Inr [result_a, result_b]"
  by (simp add: process_all_files_def example_world_fs example_files_summary example_read_all
        and_then_def)
     (simp add: content_a_def content_b_def example_single_a example_single_b)

text \<open>
  C2. The batch over the two files of the example world has N = 2 results of which K = 1
  failed (the request for \<open>b.txt\<close> timed out). The summary with \<open>total_files\<close> 2,
  \<open>failed\<close> 1, \<open>successful\<close> 1 and one error is not produced:
  \<open>batch_process_with_summary\<close> raises the \<open>AttributeError\<close> of \<open>to_dict\<close> on the failed
  result, whose \<open>llm_response\<close> is \<open>None\<close>.
\<close>

theorem batch_with_one_failure_raises:
  "process_all_files example_world example_agent None = Inr [result_a, result_b]
   \<and> success result_a \<and> \<not> success result_b
   \<and> batch_process_with_summary example_world example_agent None =
       Inl (AttributeError
             ([CHR 0x27] @ ''NoneType'' @ [CHR 0x27] @ '' object has no attribute ''
                @ [CHR 0x27] @ ''to_dict'' @ [CHR 0x27]))"
proof -
  have tok: "sum_tokens [result_a] (JInt 0) = Inr (JInt 7)"
    by (simp add: result_a_def good_openai_response_def and_then_def)
  have da: "\<exists>d. to_dict result_a = Inr d"
    by (simp add: to_dict_def result_a_def and_then_def)
  have db: "to_dict result_b =
       Inl (AttributeError
             ([CHR 0x27] @ ''NoneType'' @ [CHR 0x27] @ '' object has no attribute ''
                @ [CHR 0x27] @ ''to_dict'' @ [CHR 0x27]))"
    by (simp add: to_dict_def result_b_def and_then_def)
  have sa: "success result_a" and sb: "\<not> success result_b"
    by (simp_all add: result_a_def result_b_def)
  from da obtain d where d: "to_dict result_a = Inr d" ..
  have "summarize [result_a, result_b] =
       Inl (AttributeError
             ([CHR 0x27] @ ''NoneType'' @ [CHR 0x27] @ '' object has no attribute ''
                @ [CHR 0x27] @ ''to_dict'' @ [CHR 0x27]))"
    using tok d db sa sb by (simp add: summarize_def and_then_def Let_def)
  then show ?thesis
    using sa sb by (simp add: batch_process_with_summary_def example_process_all and_then_def)
qed

end
